theory Spec2Isabelle
  imports Main
begin

section \<open>Go values\<close>

text \<open>
  A Go slice is either nil or a sequence; a nil slice is \<open>None\<close>. A Go string is a
  sequence of bytes and is never nil. A Go \<open>error\<close> result is nil (\<open>None\<close>) or an
  error value. Go's \<open>int\<close> values are only handed on, so they are integers here.
\<close>

type_synonym 'a slice = "'a list option"

type_synonym bytes = "char slice"

datatype error = Error string

text \<open>The conversions \<^verbatim>\<open>string(text)\<close> and \<^verbatim>\<open>[]byte(s)\<close>.\<close>

definition string_of_bytes :: "bytes \<Rightarrow> string" where
  "string_of_bytes text = (case text of None \<Rightarrow> [] | Some bs \<Rightarrow> bs)"

definition bytes_of_string :: "string \<Rightarrow> bytes" where
  "bytes_of_string s = Some s"

text \<open>
  A panic that leaves a method of the wrapper: the one \<open>regexp.MustCompile\<close> raises
  for the pattern it was given, or a run-time panic raised inside a method of
  \<open>*regexp.Regexp\<close> (a nil receiver that is dereferenced, an index out of range).
\<close>

datatype panic = MustCompilePanic string | RuntimePanic string

section \<open>The wrapper\<close>

text \<open>
  \<^verbatim>\<open>type DeferredRegex struct { Re string; once sync.Once; re *regexp.Regexp }\<close>

  \<open>once\<close> is the done flag of the \<open>sync.Once\<close>. \<open>re\<close> is the pointer, \<open>None\<close> while
  nil; the field is unexported and the pointer is never handed out, so the object it
  points to is held in place. \<open>'r\<close> is the type of compiled \<open>regexp.Regexp\<close> objects.
\<close>

record 'r DeferredRegex =
  Re :: string
  once :: bool
  re :: "'r option"

text \<open>The composite literal \<^verbatim>\<open>DeferredRegex{Re: p}\<close>: the other fields are zero.\<close>

definition DeferredRegex_lit :: "string \<Rightarrow> 'r DeferredRegex" where
  "DeferredRegex_lit p = \<lparr>Re = p, once = False, re = None\<rparr>"

text \<open>
  Package \<open>regexp\<close> is not part of the repository: its functions are parameters of the
  wrapper's methods. \<open>MustCompile\<close> is \<open>regexp.MustCompile\<close>, \<open>None\<close> when it panics.
  A method \<open>M\<close> of \<open>*regexp.Regexp\<close> is a function \<open>re_M\<close> of the receiver (the pointer,
  which may be nil) and the arguments, returning \<open>Inr\<close> its result or \<open>Inl\<close> the panic
  it raises. A method of the wrapper has a pointer receiver: it takes the instance and
  returns what the call returns, or the panic that leaves it, and the instance as the
  call leaves it.
\<close>

type_synonym 'r compiler = "string \<Rightarrow> 'r option"

type_synonym ('a, 'r) outcome = "(panic + 'a) \<times> 'r DeferredRegex"

text \<open>
  \<^verbatim>\<open>func (dr *DeferredRegex) init() {
      dr.once.Do(func() { dr.re = regexp.MustCompile(dr.Re) })
  }\<close>

  \<open>sync.Once.Do(f)\<close> calls \<open>f\<close> only when the flag is not set, and sets the flag when
  \<open>f\<close> returns or panics (a panic in \<open>f\<close> counts as a return: later calls of \<open>Do\<close> do
  not call \<open>f\<close>). When \<open>MustCompile\<close> panics the assignment to \<open>dr.re\<close> does not happen.
\<close>

definition init :: "'r compiler \<Rightarrow> 'r DeferredRegex \<Rightarrow> panic option \<times> 'r DeferredRegex" where
  "init MustCompile dr =
     (if once dr then (None, dr)
      else (case MustCompile (Re dr) of
              None \<Rightarrow> (Some (MustCompilePanic (Re dr)), dr\<lparr>once := True\<rparr>)
            | Some r \<Rightarrow> (None, dr\<lparr>once := True, re := Some r\<rparr>)))"

subsection \<open>Text and flag (un)marshalling\<close>

text \<open>
  \<^verbatim>\<open>func (dr *DeferredRegex) UnmarshalText(text []byte) error { dr.Re = string(text); return nil }
  func (dr *DeferredRegex) MarshalText() ([]byte, error)      { return []byte(dr.Re), nil }
  func (dr *DeferredRegex) UnmarshalFlag(in string) error     { dr.Re = in; return nil }
  func (dr *DeferredRegex) MarshalFlag() (string, error)      { return dr.Re, nil }\<close>
\<close>

definition UnmarshalText :: "'r DeferredRegex \<Rightarrow> bytes \<Rightarrow> error option \<times> 'r DeferredRegex" where
  "UnmarshalText dr text = (None, dr\<lparr>Re := string_of_bytes text\<rparr>)"

definition MarshalText :: "'r DeferredRegex \<Rightarrow> (bytes \<times> error option) \<times> 'r DeferredRegex" where
  "MarshalText dr = ((bytes_of_string (Re dr), None), dr)"

definition UnmarshalFlag :: "'r DeferredRegex \<Rightarrow> string \<Rightarrow> error option \<times> 'r DeferredRegex" where
  "UnmarshalFlag dr in' = (None, dr\<lparr>Re := in'\<rparr>)"

definition MarshalFlag :: "'r DeferredRegex \<Rightarrow> (string \<times> error option) \<times> 'r DeferredRegex" where
  "MarshalFlag dr = ((Re dr, None), dr)"

subsection \<open>The methods of \<open>*regexp.Regexp\<close>, passed through\<close>

text \<open>
  Every other method has the body \<^verbatim>\<open>dr.init(); return dr.re.M(args)\<close>: when \<open>init\<close>
  panics the panic leaves the method, otherwise \<open>M\<close> is called on the pointer \<open>dr.re\<close>
  as \<open>init\<close> left it.
\<close>

definition init_then ::
  "'r compiler \<Rightarrow> ('r option \<Rightarrow> panic + 'a) \<Rightarrow> 'r DeferredRegex \<Rightarrow> ('a, 'r) outcome" where
  "init_then MustCompile m dr =
     (case init MustCompile dr of
        (Some e, dr') \<Rightarrow> (Inl e, dr')
      | (None, dr') \<Rightarrow> (m (re dr'), dr'))"

text \<open>
  An \<open>io.RuneReader\<close> argument is the reader's state \<open>'rd\<close>; the method of \<open>regexp\<close>
  returns the state it leaves the reader in beside its result. \<open>Longest\<close> returns
  nothing and changes the object \<open>dr.re\<close> points to: \<open>re_Longest\<close> returns the object
  as changed.
\<close>

definition Expand ::
  "'r compiler \<Rightarrow> ('r option \<Rightarrow> bytes \<Rightarrow> bytes \<Rightarrow> bytes \<Rightarrow> int slice \<Rightarrow> panic + bytes)
     \<Rightarrow> 'r DeferredRegex \<Rightarrow> bytes \<Rightarrow> bytes \<Rightarrow> bytes \<Rightarrow> int slice \<Rightarrow> (bytes, 'r) outcome" where
  "Expand MustCompile re_Expand dr dst template src match =
     init_then MustCompile (\<lambda>p. re_Expand p dst template src match) dr"

definition ExpandString ::
  "'r compiler \<Rightarrow> ('r option \<Rightarrow> bytes \<Rightarrow> string \<Rightarrow> string \<Rightarrow> int slice \<Rightarrow> panic + bytes)
     \<Rightarrow> 'r DeferredRegex \<Rightarrow> bytes \<Rightarrow> string \<Rightarrow> string \<Rightarrow> int slice \<Rightarrow> (bytes, 'r) outcome" where
  "ExpandString MustCompile re_ExpandString dr dst template' src' match =
     init_then MustCompile (\<lambda>p. re_ExpandString p dst template' src' match) dr"

definition Find ::
  "'r compiler \<Rightarrow> ('r option \<Rightarrow> bytes \<Rightarrow> panic + bytes)
     \<Rightarrow> 'r DeferredRegex \<Rightarrow> bytes \<Rightarrow> (bytes, 'r) outcome" where
  "Find MustCompile re_Find dr b =
     init_then MustCompile (\<lambda>p. re_Find p b) dr"

definition FindAll ::
  "'r compiler \<Rightarrow> ('r option \<Rightarrow> bytes \<Rightarrow> int \<Rightarrow> panic + bytes slice)
     \<Rightarrow> 'r DeferredRegex \<Rightarrow> bytes \<Rightarrow> int \<Rightarrow> (bytes slice, 'r) outcome" where
  "FindAll MustCompile re_FindAll dr b n =
     init_then MustCompile (\<lambda>p. re_FindAll p b n) dr"

definition FindAllIndex ::
  "'r compiler \<Rightarrow> ('r option \<Rightarrow> bytes \<Rightarrow> int \<Rightarrow> panic + int slice slice)
     \<Rightarrow> 'r DeferredRegex \<Rightarrow> bytes \<Rightarrow> int \<Rightarrow> (int slice slice, 'r) outcome" where
  "FindAllIndex MustCompile re_FindAllIndex dr b n =
     init_then MustCompile (\<lambda>p. re_FindAllIndex p b n) dr"

definition FindAllString ::
  "'r compiler \<Rightarrow> ('r option \<Rightarrow> string \<Rightarrow> int \<Rightarrow> panic + string slice)
     \<Rightarrow> 'r DeferredRegex \<Rightarrow> string \<Rightarrow> int \<Rightarrow> (string slice, 'r) outcome" where
  "FindAllString MustCompile re_FindAllString dr s n =
     init_then MustCompile (\<lambda>p. re_FindAllString p s n) dr"

definition FindAllStringIndex ::
  "'r compiler \<Rightarrow> ('r option \<Rightarrow> string \<Rightarrow> int \<Rightarrow> panic + int slice slice)
     \<Rightarrow> 'r DeferredRegex \<Rightarrow> string \<Rightarrow> int \<Rightarrow> (int slice slice, 'r) outcome" where
  "FindAllStringIndex MustCompile re_FindAllStringIndex dr s n =
     init_then MustCompile (\<lambda>p. re_FindAllStringIndex p s n) dr"

definition FindAllStringSubmatch ::
  "'r compiler \<Rightarrow> ('r option \<Rightarrow> string \<Rightarrow> int \<Rightarrow> panic + string slice slice)
     \<Rightarrow> 'r DeferredRegex \<Rightarrow> string \<Rightarrow> int \<Rightarrow> (string slice slice, 'r) outcome" where
  "FindAllStringSubmatch MustCompile re_FindAllStringSubmatch dr s n =
     init_then MustCompile (\<lambda>p. re_FindAllStringSubmatch p s n) dr"

definition FindAllStringSubmatchIndex ::
  "'r compiler \<Rightarrow> ('r option \<Rightarrow> string \<Rightarrow> int \<Rightarrow> panic + int slice slice)
     \<Rightarrow> 'r DeferredRegex \<Rightarrow> string \<Rightarrow> int \<Rightarrow> (int slice slice, 'r) outcome" where
  "FindAllStringSubmatchIndex MustCompile re_FindAllStringSubmatchIndex dr s n =
     init_then MustCompile (\<lambda>p. re_FindAllStringSubmatchIndex p s n) dr"

definition FindAllSubmatch ::
  "'r compiler \<Rightarrow> ('r option \<Rightarrow> bytes \<Rightarrow> int \<Rightarrow> panic + bytes slice slice)
     \<Rightarrow> 'r DeferredRegex \<Rightarrow> bytes \<Rightarrow> int \<Rightarrow> (bytes slice slice, 'r) outcome" where
  "FindAllSubmatch MustCompile re_FindAllSubmatch dr b n =
     init_then MustCompile (\<lambda>p. re_FindAllSubmatch p b n) dr"

definition FindAllSubmatchIndex ::
  "'r compiler \<Rightarrow> ('r option \<Rightarrow> bytes \<Rightarrow> int \<Rightarrow> panic + int slice slice)
     \<Rightarrow> 'r DeferredRegex \<Rightarrow> bytes \<Rightarrow> int \<Rightarrow> (int slice slice, 'r) outcome" where
  "FindAllSubmatchIndex MustCompile re_FindAllSubmatchIndex dr b n =
     init_then MustCompile (\<lambda>p. re_FindAllSubmatchIndex p b n) dr"

definition FindIndex ::
  "'r compiler \<Rightarrow> ('r option \<Rightarrow> bytes \<Rightarrow> panic + int slice)
     \<Rightarrow> 'r DeferredRegex \<Rightarrow> bytes \<Rightarrow> (int slice, 'r) outcome" where
  "FindIndex MustCompile re_FindIndex dr b =
     init_then MustCompile (\<lambda>p. re_FindIndex p b) dr"

definition FindReaderIndex ::
  "'r compiler \<Rightarrow> ('r option \<Rightarrow> 'rd \<Rightarrow> panic + (int slice \<times> 'rd))
     \<Rightarrow> 'r DeferredRegex \<Rightarrow> 'rd \<Rightarrow> (int slice \<times> 'rd, 'r) outcome" where
  "FindReaderIndex MustCompile re_FindReaderIndex dr rd =
     init_then MustCompile (\<lambda>p. re_FindReaderIndex p rd) dr"

definition FindReaderSubmatchIndex ::
  "'r compiler \<Rightarrow> ('r option \<Rightarrow> 'rd \<Rightarrow> panic + (int slice \<times> 'rd))
     \<Rightarrow> 'r DeferredRegex \<Rightarrow> 'rd \<Rightarrow> (int slice \<times> 'rd, 'r) outcome" where
  "FindReaderSubmatchIndex MustCompile re_FindReaderSubmatchIndex dr rd =
     init_then MustCompile (\<lambda>p. re_FindReaderSubmatchIndex p rd) dr"

definition FindString ::
  "'r compiler \<Rightarrow> ('r option \<Rightarrow> string \<Rightarrow> panic + string)
     \<Rightarrow> 'r DeferredRegex \<Rightarrow> string \<Rightarrow> (string, 'r) outcome" where
  "FindString MustCompile re_FindString dr s =
     init_then MustCompile (\<lambda>p. re_FindString p s) dr"

definition FindStringIndex ::
  "'r compiler \<Rightarrow> ('r option \<Rightarrow> string \<Rightarrow> panic + int slice)
     \<Rightarrow> 'r DeferredRegex \<Rightarrow> string \<Rightarrow> (int slice, 'r) outcome" where
  "FindStringIndex MustCompile re_FindStringIndex dr s =
     init_then MustCompile (\<lambda>p. re_FindStringIndex p s) dr"

definition FindStringSubmatch ::
  "'r compiler \<Rightarrow> ('r option \<Rightarrow> string \<Rightarrow> panic + string slice)
     \<Rightarrow> 'r DeferredRegex \<Rightarrow> string \<Rightarrow> (string slice, 'r) outcome" where
  "FindStringSubmatch MustCompile re_FindStringSubmatch dr s =
     init_then MustCompile (\<lambda>p. re_FindStringSubmatch p s) dr"

definition FindStringSubmatchIndex ::
  "'r compiler \<Rightarrow> ('r option \<Rightarrow> string \<Rightarrow> panic + int slice)
     \<Rightarrow> 'r DeferredRegex \<Rightarrow> string \<Rightarrow> (int slice, 'r) outcome" where
  "FindStringSubmatchIndex MustCompile re_FindStringSubmatchIndex dr s =
     init_then MustCompile (\<lambda>p. re_FindStringSubmatchIndex p s) dr"

definition FindSubmatch ::
  "'r compiler \<Rightarrow> ('r option \<Rightarrow> bytes \<Rightarrow> panic + bytes slice)
     \<Rightarrow> 'r DeferredRegex \<Rightarrow> bytes \<Rightarrow> (bytes slice, 'r) outcome" where
  "FindSubmatch MustCompile re_FindSubmatch dr b =
     init_then MustCompile (\<lambda>p. re_FindSubmatch p b) dr"

definition FindSubmatchIndex ::
  "'r compiler \<Rightarrow> ('r option \<Rightarrow> bytes \<Rightarrow> panic + int slice)
     \<Rightarrow> 'r DeferredRegex \<Rightarrow> bytes \<Rightarrow> (int slice, 'r) outcome" where
  "FindSubmatchIndex MustCompile re_FindSubmatchIndex dr b =
     init_then MustCompile (\<lambda>p. re_FindSubmatchIndex p b) dr"

definition LiteralPrefix ::
  "'r compiler \<Rightarrow> ('r option \<Rightarrow> panic + (string \<times> bool))
     \<Rightarrow> 'r DeferredRegex \<Rightarrow> (string \<times> bool, 'r) outcome" where
  "LiteralPrefix MustCompile re_LiteralPrefix dr =
     init_then MustCompile (\<lambda>p. re_LiteralPrefix p) dr"

definition Longest ::
  "'r compiler \<Rightarrow> ('r option \<Rightarrow> panic + 'r)
     \<Rightarrow> 'r DeferredRegex \<Rightarrow> (unit, 'r) outcome" where
  "Longest MustCompile re_Longest dr =
     (case init MustCompile dr of
        (Some e, dr') \<Rightarrow> (Inl e, dr')
      | (None, dr') \<Rightarrow>
          (case re_Longest (re dr') of
             Inl e \<Rightarrow> (Inl e, dr')
           | Inr r' \<Rightarrow> (Inr (), dr'\<lparr>re := Some r'\<rparr>)))"

definition Match ::
  "'r compiler \<Rightarrow> ('r option \<Rightarrow> bytes \<Rightarrow> panic + bool)
     \<Rightarrow> 'r DeferredRegex \<Rightarrow> bytes \<Rightarrow> (bool, 'r) outcome" where
  "Match MustCompile re_Match dr b =
     init_then MustCompile (\<lambda>p. re_Match p b) dr"

definition MatchReader ::
  "'r compiler \<Rightarrow> ('r option \<Rightarrow> 'rd \<Rightarrow> panic + (bool \<times> 'rd))
     \<Rightarrow> 'r DeferredRegex \<Rightarrow> 'rd \<Rightarrow> (bool \<times> 'rd, 'r) outcome" where
  "MatchReader MustCompile re_MatchReader dr rd =
     init_then MustCompile (\<lambda>p. re_MatchReader p rd) dr"

definition MatchString ::
  "'r compiler \<Rightarrow> ('r option \<Rightarrow> string \<Rightarrow> panic + bool)
     \<Rightarrow> 'r DeferredRegex \<Rightarrow> string \<Rightarrow> (bool, 'r) outcome" where
  "MatchString MustCompile re_MatchString dr s =
     init_then MustCompile (\<lambda>p. re_MatchString p s) dr"

definition NumSubexp ::
  "'r compiler \<Rightarrow> ('r option \<Rightarrow> panic + int)
     \<Rightarrow> 'r DeferredRegex \<Rightarrow> (int, 'r) outcome" where
  "NumSubexp MustCompile re_NumSubexp dr =
     init_then MustCompile (\<lambda>p. re_NumSubexp p) dr"

definition ReplaceAll ::
  "'r compiler \<Rightarrow> ('r option \<Rightarrow> bytes \<Rightarrow> bytes \<Rightarrow> panic + bytes)
     \<Rightarrow> 'r DeferredRegex \<Rightarrow> bytes \<Rightarrow> bytes \<Rightarrow> (bytes, 'r) outcome" where
  "ReplaceAll MustCompile re_ReplaceAll dr src repl =
     init_then MustCompile (\<lambda>p. re_ReplaceAll p src repl) dr"

definition ReplaceAllFunc ::
  "'r compiler \<Rightarrow> ('r option \<Rightarrow> bytes \<Rightarrow> (bytes \<Rightarrow> bytes) \<Rightarrow> panic + bytes)
     \<Rightarrow> 'r DeferredRegex \<Rightarrow> bytes \<Rightarrow> (bytes \<Rightarrow> bytes) \<Rightarrow> (bytes, 'r) outcome" where
  "ReplaceAllFunc MustCompile re_ReplaceAllFunc dr src replf =
     init_then MustCompile (\<lambda>p. re_ReplaceAllFunc p src replf) dr"

definition ReplaceAllLiteral ::
  "'r compiler \<Rightarrow> ('r option \<Rightarrow> bytes \<Rightarrow> bytes \<Rightarrow> panic + bytes)
     \<Rightarrow> 'r DeferredRegex \<Rightarrow> bytes \<Rightarrow> bytes \<Rightarrow> (bytes, 'r) outcome" where
  "ReplaceAllLiteral MustCompile re_ReplaceAllLiteral dr src repl =
     init_then MustCompile (\<lambda>p. re_ReplaceAllLiteral p src repl) dr"

definition ReplaceAllLiteralString ::
  "'r compiler \<Rightarrow> ('r option \<Rightarrow> string \<Rightarrow> string \<Rightarrow> panic + string)
     \<Rightarrow> 'r DeferredRegex \<Rightarrow> string \<Rightarrow> string \<Rightarrow> (string, 'r) outcome" where
  "ReplaceAllLiteralString MustCompile re_ReplaceAllLiteralString dr src' repl' =
     init_then MustCompile (\<lambda>p. re_ReplaceAllLiteralString p src' repl') dr"

definition ReplaceAllString ::
  "'r compiler \<Rightarrow> ('r option \<Rightarrow> string \<Rightarrow> string \<Rightarrow> panic + string)
     \<Rightarrow> 'r DeferredRegex \<Rightarrow> string \<Rightarrow> string \<Rightarrow> (string, 'r) outcome" where
  "ReplaceAllString MustCompile re_ReplaceAllString dr src' repl' =
     init_then MustCompile (\<lambda>p. re_ReplaceAllString p src' repl') dr"

definition ReplaceAllStringFunc ::
  "'r compiler \<Rightarrow> ('r option \<Rightarrow> string \<Rightarrow> (string \<Rightarrow> string) \<Rightarrow> panic + string)
     \<Rightarrow> 'r DeferredRegex \<Rightarrow> string \<Rightarrow> (string \<Rightarrow> string) \<Rightarrow> (string, 'r) outcome" where
  "ReplaceAllStringFunc MustCompile re_ReplaceAllStringFunc dr src' replf' =
     init_then MustCompile (\<lambda>p. re_ReplaceAllStringFunc p src' replf') dr"

definition Split ::
  "'r compiler \<Rightarrow> ('r option \<Rightarrow> string \<Rightarrow> int \<Rightarrow> panic + string slice)
     \<Rightarrow> 'r DeferredRegex \<Rightarrow> string \<Rightarrow> int \<Rightarrow> (string slice, 'r) outcome" where
  "Split MustCompile re_Split dr s n =
     init_then MustCompile (\<lambda>p. re_Split p s n) dr"

definition String ::
  "'r compiler \<Rightarrow> ('r option \<Rightarrow> panic + string)
     \<Rightarrow> 'r DeferredRegex \<Rightarrow> (string, 'r) outcome" where
  "String MustCompile re_String dr =
     init_then MustCompile (\<lambda>p. re_String p) dr"

definition SubexpIndex ::
  "'r compiler \<Rightarrow> ('r option \<Rightarrow> string \<Rightarrow> panic + int)
     \<Rightarrow> 'r DeferredRegex \<Rightarrow> string \<Rightarrow> (int, 'r) outcome" where
  "SubexpIndex MustCompile re_SubexpIndex dr name =
     init_then MustCompile (\<lambda>p. re_SubexpIndex p name) dr"

definition SubexpNames ::
  "'r compiler \<Rightarrow> ('r option \<Rightarrow> panic + string slice)
     \<Rightarrow> 'r DeferredRegex \<Rightarrow> (string slice, 'r) outcome" where
  "SubexpNames MustCompile re_SubexpNames dr =
     init_then MustCompile (\<lambda>p. re_SubexpNames p) dr"

section \<open>The pattern engine\<close>

text \<open>
  Modelled from the spec: the Pattern Engine is an external collaborator (section 6:
  \<open>compile(pattern) -> compiled-object-or-fatal-error\<close>, and the operations on the
  compiled object); it is Go's package \<open>regexp\<close>, and none of its code is in the
  repository. The general theorems take its functions as parameters. The definitions of
  this section give the part of it that the concrete scenarios need, after the
  documented behaviour of the package: \<open>MustCompile\<close>, \<open>MatchString\<close>, \<open>FindString\<close>,
  \<open>FindStringSubmatch\<close>, \<open>String\<close> and \<open>Longest\<close>, on a fragment of the pattern syntax.

  The fragment: ASCII literals; a backslash before an ASCII punctuation character;
  character classes of letters, digits and ranges of them; capturing groups;
  alternation; the greedy repetitions \<open>*\<close>, \<open>+\<close> and \<open>?\<close> of an operand that cannot match
  the empty string. \<open>parse\<close> answers \<open>Invalid\<close> where the package reports a syntax error
  and \<open>Unsupported\<close> for a pattern outside the fragment, about which nothing is said
  here.
\<close>

datatype rx =
    OpEmptyMatch
  | OpLiteral char
  | OpCharClass "(char \<times> char) list"
  | OpCapture nat rx
  | OpStar rx
  | OpPlus rx
  | OpQuest rx
  | OpConcat rx rx
  | OpAlternate rx rx

datatype failure = Invalid string | Unsupported

text \<open>
  The parser keeps a stack of open groups, the innermost first. A frame holds the
  group's index, the alternatives that are complete (the last first) and the items of
  the alternative being read (the last first).
\<close>

type_synonym frame = "nat \<times> rx list \<times> rx list"

fun mk_concat :: "rx list \<Rightarrow> rx" where
  "mk_concat [] = OpEmptyMatch"
| "mk_concat [x] = x"
| "mk_concat (x # xs) = OpConcat x (mk_concat xs)"

fun mk_alternate :: "rx list \<Rightarrow> rx" where
  "mk_alternate [] = OpEmptyMatch"
| "mk_alternate [x] = x"
| "mk_alternate (x # xs) = OpAlternate x (mk_alternate xs)"

definition close_frame :: "frame \<Rightarrow> rx" where
  "close_frame f =
     (case f of (i, alts, cur) \<Rightarrow> mk_alternate (rev (mk_concat (rev cur) # alts)))"

fun nullable :: "rx \<Rightarrow> bool" where
  "nullable OpEmptyMatch = True"
| "nullable (OpLiteral c) = False"
| "nullable (OpCharClass rs) = False"
| "nullable (OpCapture k a) = nullable a"
| "nullable (OpStar a) = True"
| "nullable (OpPlus a) = nullable a"
| "nullable (OpQuest a) = True"
| "nullable (OpConcat a b) = (nullable a \<and> nullable b)"
| "nullable (OpAlternate a b) = (nullable a \<or> nullable b)"

definition code :: "char \<Rightarrow> nat" where
  "code c = of_char c"

definition is_alnum :: "char \<Rightarrow> bool" where
  "is_alnum c =
     ((code (CHR ''0'') \<le> code c \<and> code c \<le> code (CHR ''9''))
      \<or> (code (CHR ''A'') \<le> code c \<and> code c \<le> code (CHR ''Z''))
      \<or> (code (CHR ''a'') \<le> code c \<and> code c \<le> code (CHR ''z'')))"

definition push :: "rx \<Rightarrow> frame list \<Rightarrow> frame list" where
  "push x stk =
     (case stk of [] \<Rightarrow> [] | (i, alts, cur) # rest \<Rightarrow> (i, alts, x # cur) # rest)"

definition repeat :: "char \<Rightarrow> rx \<Rightarrow> rx" where
  "repeat c x =
     (if c = CHR ''*'' then OpStar x else if c = CHR ''+'' then OpPlus x else OpQuest x)"

text \<open>
  The parser reads the pattern byte by byte. Its mode says what the last bytes were: a
  backslash (\<open>Escape\<close>), inside a class after its items \<open>rs\<close> (\<open>Class\<close>), after a class
  item \<open>lo\<close> that may start a range (\<open>ClassLo\<close>), after \<open>lo-\<close> (\<open>ClassDash\<close>). Beside the
  mode it holds the number of groups opened, whether the last byte was a repetition
  operator, whether it was an opening parenthesis, and the stack.
\<close>

datatype mode =
    Normal
  | Escape
  | Class "(char \<times> char) list"
  | ClassLo "(char \<times> char) list" char
  | ClassDash "(char \<times> char) list" char

datatype pstate = Running mode nat bool bool "frame list" | Failed failure

definition pstep :: "pstate \<Rightarrow> char \<Rightarrow> pstate" where
  "pstep st c =
     (case st of
        Failed e \<Rightarrow> Failed e
      | Running m n lastRepeat afterParen stk \<Rightarrow>
         (case m of
            Escape \<Rightarrow>
              if code c < 128 \<and> \<not> is_alnum c
              then Running Normal n False False (push (OpLiteral c) stk)
              else Failed Unsupported
          | Class rs \<Rightarrow>
              if c = CHR '']'' then
                (if rs = [] then Failed Unsupported
                 else Running Normal n False False (push (OpCharClass (rev rs)) stk))
              else if is_alnum c then Running (ClassLo rs c) n False False stk
              else Failed Unsupported
          | ClassLo rs lo \<Rightarrow>
              if c = CHR ''-'' then Running (ClassDash rs lo) n False False stk
              else if c = CHR '']'' then
                Running Normal n False False (push (OpCharClass (rev ((lo, lo) # rs))) stk)
              else if is_alnum c then Running (ClassLo ((lo, lo) # rs) c) n False False stk
              else Failed Unsupported
          | ClassDash rs lo \<Rightarrow>
              if \<not> is_alnum c then Failed Unsupported
              else if code c < code lo then Failed (Invalid ''invalid character class range'')
              else Running (Class ((lo, c) # rs)) n False False stk
          | Normal \<Rightarrow>
              if afterParen \<and> c = CHR ''?'' then Failed Unsupported
              else if c = CHR ''('' then
                Running Normal (Suc n) False True ((Suc n, [], []) # stk)
              else if c = CHR '')'' then
                (case stk of
                   f # g # rest \<Rightarrow>
                     Running Normal n False False
                       (push (OpCapture (fst f) (close_frame f)) (g # rest))
                 | _ \<Rightarrow> Failed (Invalid ''unexpected )''))
              else if c = CHR ''|'' then
                (case stk of
                   (i, alts, cur) # rest \<Rightarrow>
                     Running Normal n False False ((i, mk_concat (rev cur) # alts, []) # rest)
                 | [] \<Rightarrow> Failed Unsupported)
              else if c = CHR ''*'' \<or> c = CHR ''+'' \<or> c = CHR ''?'' then
                (if lastRepeat then
                   (if c = CHR ''?'' then Failed Unsupported
                    else Failed (Invalid ''invalid nested repetition operator''))
                 else
                   (case stk of
                      (i, alts, x # cur) # rest \<Rightarrow>
                        if nullable x then Failed Unsupported
                        else Running Normal n True False ((i, alts, repeat c x # cur) # rest)
                    | _ \<Rightarrow> Failed (Invalid ''missing argument to repetition operator'')))
              else if c = CHR ''['' then Running (Class []) n False False stk
              else if c = CHR 0x5C then Running Escape n False False stk
              else if c \<in> set ''.^${}]'' \<or> 128 \<le> code c then Failed Unsupported
              else Running Normal n False False (push (OpLiteral c) stk)))"

definition pfinish :: "pstate \<Rightarrow> failure + rx \<times> nat" where
  "pfinish st =
     (case st of
        Failed e \<Rightarrow> Inl e
      | Running m n lastRepeat afterParen stk \<Rightarrow>
         (case m of
            Normal \<Rightarrow>
              (case stk of
                 [f] \<Rightarrow> Inr (close_frame f, n)
               | _ \<Rightarrow> Inl (Invalid ''missing closing )''))
          | Escape \<Rightarrow> Inl (Invalid ''trailing backslash at end of expression'')
          | _ \<Rightarrow> Inl (Invalid ''missing closing ]'')))"

definition parse :: "string \<Rightarrow> failure + rx \<times> nat" where
  "parse p =
     (if 1000 < length p then Inl Unsupported
      else pfinish (foldl pstep (Running Normal 0 False False [(0, [], [])]) p))"

text \<open>
  Matching. \<open>run a t i cs\<close> lists every way \<open>a\<close> matches a prefix of the input \<open>t\<close>, which
  starts at offset \<open>i\<close>, the preferred way first: the rest of the input, its offset and
  the groups' spans. An alternation prefers its left side, a repetition prefers one
  more round; a round of a star that consumes nothing is not taken.
\<close>

type_synonym caps = "(nat \<times> nat) option list"

fun weight :: "rx \<Rightarrow> nat" where
  "weight OpEmptyMatch = 0"
| "weight (OpLiteral c) = 0"
| "weight (OpCharClass rs) = 0"
| "weight (OpCapture k a) = Suc (weight a)"
| "weight (OpStar a) = Suc (weight a)"
| "weight (OpPlus a) = Suc (Suc (weight a))"
| "weight (OpQuest a) = Suc (weight a)"
| "weight (OpConcat a b) = Suc (weight a + weight b)"
| "weight (OpAlternate a b) = Suc (weight a + weight b)"

definition in_class :: "char \<Rightarrow> (char \<times> char) list \<Rightarrow> bool" where
  "in_class c rs = list_ex (\<lambda>(lo, hi). code lo \<le> code c \<and> code c \<le> code hi) rs"

function run :: "rx \<Rightarrow> string \<Rightarrow> nat \<Rightarrow> caps \<Rightarrow> (string \<times> nat \<times> caps) list" where
  "run OpEmptyMatch t i cs = [(t, i, cs)]"
| "run (OpLiteral c) t i cs =
     (case t of [] \<Rightarrow> [] | x # t' \<Rightarrow> if x = c then [(t', Suc i, cs)] else [])"
| "run (OpCharClass rs) t i cs =
     (case t of [] \<Rightarrow> [] | x # t' \<Rightarrow> if in_class x rs then [(t', Suc i, cs)] else [])"
| "run (OpCapture k a) t i cs =
     map (\<lambda>(t', i', cs'). (t', i', cs'[k := Some (i, i')])) (run a t i cs)"
| "run (OpStar a) t i cs =
     concat (map (\<lambda>(t', i', cs').
                    if length t' < length t then run (OpStar a) t' i' cs' else [])
                 (run a t i cs))
     @ [(t, i, cs)]"
| "run (OpPlus a) t i cs =
     concat (map (\<lambda>(t', i', cs'). run (OpStar a) t' i' cs') (run a t i cs))"
| "run (OpQuest a) t i cs = run a t i cs @ [(t, i, cs)]"
| "run (OpConcat a b) t i cs =
     concat (map (\<lambda>(t', i', cs'). run b t' i' cs') (run a t i cs))"
| "run (OpAlternate a b) t i cs = run a t i cs @ run b t i cs"
  by pat_completeness auto
termination
  by (relation "measures [\<lambda>(a, t, i, cs). weight a, \<lambda>(a, t, i, cs). length t]") auto

text \<open>
  The compiled object: the source text, the parsed pattern, the number of groups and
  the leftmost-longest flag (fields \<open>expr\<close>, \<open>prog\<close>, \<open>numSubexp\<close> and \<open>longest\<close> of
  \<open>regexp.Regexp\<close>).
\<close>

record Regexp =
  expr :: string
  prog :: rx
  numSubexp :: nat
  longest :: bool

definition regexp_MustCompile :: "Regexp compiler" where
  \<comment> \<open>Modelled from the spec: \<open>regexp.MustCompile\<close>, which panics where \<open>Compile\<close> fails.\<close>
  "regexp_MustCompile p =
     (case parse p of
        Inl e \<Rightarrow> None
      | Inr (a, n) \<Rightarrow> Some \<lparr>expr = p, prog = a, numSubexp = n, longest = False\<rparr>)"

text \<open>
  Of the matches that start at one offset the first is taken, or with \<open>longest\<close> set
  the first of the longest ones. The search tries the offsets from the left.
\<close>

definition pick :: "bool \<Rightarrow> (string \<times> nat \<times> caps) list \<Rightarrow> (string \<times> nat \<times> caps) option" where
  "pick lng ms =
     (case ms of
        [] \<Rightarrow> None
      | m # ms' \<Rightarrow>
          Some (if lng
                then foldl (\<lambda>best m'. if fst (snd best) < fst (snd m') then m' else best) m ms'
                else m))"

fun doExecute :: "Regexp \<Rightarrow> string \<Rightarrow> nat \<Rightarrow> caps option" where
  "doExecute r [] i =
     (case pick (longest r) (run (prog r) [] i (replicate (Suc (numSubexp r)) None)) of
        None \<Rightarrow> None
      | Some (t', j, cs) \<Rightarrow> Some (cs[0 := Some (i, j)]))"
| "doExecute r (x # t) i =
     (case pick (longest r) (run (prog r) (x # t) i (replicate (Suc (numSubexp r)) None)) of
        None \<Rightarrow> doExecute r t (Suc i)
      | Some (t', j, cs) \<Rightarrow> Some (cs[0 := Some (i, j)]))"

definition substr :: "string \<Rightarrow> (nat \<times> nat) option \<Rightarrow> string" where
  "substr s c = (case c of None \<Rightarrow> [] | Some (a, b) \<Rightarrow> take (b - a) (drop a s))"

definition nil_dereference :: panic where
  "nil_dereference =
     RuntimePanic ''runtime error: invalid memory address or nil pointer dereference''"

definition regexp_MatchString :: "Regexp option \<Rightarrow> string \<Rightarrow> panic + bool" where
  \<comment> \<open>Modelled from the spec: \<open>(*Regexp).MatchString\<close>.\<close>
  "regexp_MatchString p s =
     (case p of
        None \<Rightarrow> Inl nil_dereference
      | Some r \<Rightarrow> Inr (doExecute r s 0 \<noteq> None))"

definition regexp_FindString :: "Regexp option \<Rightarrow> string \<Rightarrow> panic + string" where
  \<comment> \<open>Modelled from the spec: \<open>(*Regexp).FindString\<close>, the empty string when nothing matches.\<close>
  "regexp_FindString p s =
     (case p of
        None \<Rightarrow> Inl nil_dereference
      | Some r \<Rightarrow>
          Inr (case doExecute r s 0 of
                 Some (c # cs) \<Rightarrow> substr s c
               | _ \<Rightarrow> []))"

definition regexp_FindStringSubmatch :: "Regexp option \<Rightarrow> string \<Rightarrow> panic + string slice" where
  \<comment> \<open>Modelled from the spec: \<open>(*Regexp).FindStringSubmatch\<close>, nil when nothing matches,
     the empty string for a group that took no part in the match.\<close>
  "regexp_FindStringSubmatch p s =
     (case p of
        None \<Rightarrow> Inl nil_dereference
      | Some r \<Rightarrow>
          Inr (case doExecute r s 0 of
                 None \<Rightarrow> None
               | Some cs \<Rightarrow> Some (map (substr s) cs)))"

definition regexp_String :: "Regexp option \<Rightarrow> panic + string" where
  \<comment> \<open>Modelled from the spec: \<open>(*Regexp).String\<close>, the source text the object was compiled from.\<close>
  "regexp_String p =
     (case p of
        None \<Rightarrow> Inl nil_dereference
      | Some r \<Rightarrow> Inr (expr r))"

definition regexp_Longest :: "Regexp option \<Rightarrow> panic + Regexp" where
  \<comment> \<open>Modelled from the spec: \<open>(*Regexp).Longest\<close>, which sets the object's \<open>longest\<close> flag.\<close>
  "regexp_Longest p =
     (case p of
        None \<Rightarrow> Inl nil_dereference
      | Some r \<Rightarrow> Inr (r\<lparr>longest := True\<rparr>))"

text \<open>
  The pattern of the repository's test and README, the Go raw string
  \<^verbatim>\<open>([0-9]+)\.([0-9]+)\.([0-9]+)\<close>.
\<close>

definition semver_pattern :: string where
  "semver_pattern = ''([0-9]+)'' @ CHR 0x5C # ''.([0-9]+)'' @ CHR 0x5C # ''.([0-9]+)''"

text \<open>An instance with the pattern \<open>a|ab\<close>, after a first call of \<open>MatchString\<close>.\<close>

definition a_or_ab :: "Regexp DeferredRegex" where
  "a_or_ab =
     snd (MatchString regexp_MustCompile regexp_MatchString (DeferredRegex_lit ''a|ab'') ''ab'')"

section \<open>First use\<close>

lemmas passthrough_defs =
  Expand_def ExpandString_def Find_def FindAll_def FindAllIndex_def FindAllString_def
  FindAllStringIndex_def FindAllStringSubmatch_def FindAllStringSubmatchIndex_def
  FindAllSubmatch_def FindAllSubmatchIndex_def FindIndex_def FindReaderIndex_def
  FindReaderSubmatchIndex_def FindString_def FindStringIndex_def FindStringSubmatch_def
  FindStringSubmatchIndex_def FindSubmatch_def FindSubmatchIndex_def LiteralPrefix_def
  Match_def MatchReader_def MatchString_def NumSubexp_def ReplaceAll_def
  ReplaceAllFunc_def ReplaceAllLiteral_def ReplaceAllLiteralString_def
  ReplaceAllString_def ReplaceAllStringFunc_def Split_def String_def SubexpIndex_def
  SubexpNames_def

lemma init_compiles:
  "\<not> once dr \<Longrightarrow> MustCompile (Re dr) = Some r \<Longrightarrow>
   init MustCompile dr = (None, dr\<lparr>once := True, re := Some r\<rparr>)"
  by (simp add: init_def)

lemma init_panics:
  "\<not> once dr \<Longrightarrow> MustCompile (Re dr) = None \<Longrightarrow>
   init MustCompile dr = (Some (MustCompilePanic (Re dr)), dr\<lparr>once := True\<rparr>)"
  by (simp add: init_def)

lemma init_done:
  "once dr \<Longrightarrow> init MustCompile dr = (None, dr)"
  by (simp add: init_def)

text \<open>Run in sequence, \<open>init\<close> reaches \<open>MustCompile\<close> at most once: after any call the
  once flag is set, and a call that finds it set changes nothing.\<close>

lemma init_sets_once:
  "once (snd (init MustCompile dr))"
  by (simp add: init_def split: option.split)

lemma init_again:
  "init MustCompile' (snd (init MustCompile dr)) = (None, snd (init MustCompile dr))"
  by (simp add: init_done init_sets_once)

lemma init_then_compiles:
  "\<not> once dr \<Longrightarrow> MustCompile (Re dr) = Some r \<Longrightarrow>
   init_then MustCompile m dr = (m (Some r), dr\<lparr>once := True, re := Some r\<rparr>)"
  by (simp add: init_then_def init_compiles)

lemma init_then_panics:
  "\<not> once dr \<Longrightarrow> MustCompile (Re dr) = None \<Longrightarrow>
   init_then MustCompile m dr = (Inl (MustCompilePanic (Re dr)), dr\<lparr>once := True\<rparr>)"
  by (simp add: init_then_def init_panics)

lemma init_then_done:
  "once dr \<Longrightarrow> init_then MustCompile m dr = (m (re dr), dr)"
  by (simp add: init_then_def init_done)

section \<open>Pass-through\<close>

text \<open>
  C1. When \<open>regexp.MustCompile(P)\<close> returns the object \<open>r\<close>, every pass-through method
  called on a fresh \<^verbatim>\<open>DeferredRegex{Re: P}\<close> returns exactly what the same method of
  \<open>regexp\<close> returns on \<open>r\<close> with the same arguments. \<open>MatchString\<close> stands first,
  \<^verbatim>\<open>DeferredRegex{Re: P}.MatchString(S) == regexp.MustCompile(P).MatchString(S)\<close>, then
  the other methods in the order of the source. \<open>Longest\<close> returns nothing: it leaves in
  the wrapper the object \<open>regexp\<close>'s \<open>Longest\<close> makes of \<open>r\<close>.
\<close>

theorem deferred_equals_eager:
  assumes "MustCompile P = Some r"
  shows
  "fst (MatchString MustCompile re_MatchString (DeferredRegex_lit P) s)
       = re_MatchString (Some r) s
   \<and> fst (Expand MustCompile re_Expand (DeferredRegex_lit P) dst template src match)
       = re_Expand (Some r) dst template src match
   \<and> fst (ExpandString MustCompile re_ExpandString
            (DeferredRegex_lit P) dst template' src' match)
       = re_ExpandString (Some r) dst template' src' match
   \<and> fst (Find MustCompile re_Find (DeferredRegex_lit P) b)
       = re_Find (Some r) b
   \<and> fst (FindAll MustCompile re_FindAll (DeferredRegex_lit P) b n)
       = re_FindAll (Some r) b n
   \<and> fst (FindAllIndex MustCompile re_FindAllIndex (DeferredRegex_lit P) b n)
       = re_FindAllIndex (Some r) b n
   \<and> fst (FindAllString MustCompile re_FindAllString (DeferredRegex_lit P) s n)
       = re_FindAllString (Some r) s n
   \<and> fst (FindAllStringIndex MustCompile re_FindAllStringIndex
            (DeferredRegex_lit P) s n)
       = re_FindAllStringIndex (Some r) s n
   \<and> fst (FindAllStringSubmatch MustCompile re_FindAllStringSubmatch
            (DeferredRegex_lit P) s n)
       = re_FindAllStringSubmatch (Some r) s n
   \<and> fst (FindAllStringSubmatchIndex MustCompile re_FindAllStringSubmatchIndex
            (DeferredRegex_lit P) s n)
       = re_FindAllStringSubmatchIndex (Some r) s n
   \<and> fst (FindAllSubmatch MustCompile re_FindAllSubmatch (DeferredRegex_lit P) b n)
       = re_FindAllSubmatch (Some r) b n
   \<and> fst (FindAllSubmatchIndex MustCompile re_FindAllSubmatchIndex
            (DeferredRegex_lit P) b n)
       = re_FindAllSubmatchIndex (Some r) b n
   \<and> fst (FindIndex MustCompile re_FindIndex (DeferredRegex_lit P) b)
       = re_FindIndex (Some r) b
   \<and> fst (FindReaderIndex MustCompile re_FindReaderIndex (DeferredRegex_lit P) rd)
       = re_FindReaderIndex (Some r) rd
   \<and> fst (FindReaderSubmatchIndex MustCompile re_FindReaderSubmatchIndex
            (DeferredRegex_lit P) rd)
       = re_FindReaderSubmatchIndex (Some r) rd
   \<and> fst (FindString MustCompile re_FindString (DeferredRegex_lit P) s)
       = re_FindString (Some r) s
   \<and> fst (FindStringIndex MustCompile re_FindStringIndex (DeferredRegex_lit P) s)
       = re_FindStringIndex (Some r) s
   \<and> fst (FindStringSubmatch MustCompile re_FindStringSubmatch (DeferredRegex_lit P) s)
       = re_FindStringSubmatch (Some r) s
   \<and> fst (FindStringSubmatchIndex MustCompile re_FindStringSubmatchIndex
            (DeferredRegex_lit P) s)
       = re_FindStringSubmatchIndex (Some r) s
   \<and> fst (FindSubmatch MustCompile re_FindSubmatch (DeferredRegex_lit P) b)
       = re_FindSubmatch (Some r) b
   \<and> fst (FindSubmatchIndex MustCompile re_FindSubmatchIndex (DeferredRegex_lit P) b)
       = re_FindSubmatchIndex (Some r) b
   \<and> fst (LiteralPrefix MustCompile re_LiteralPrefix (DeferredRegex_lit P))
       = re_LiteralPrefix (Some r)
   \<and> Longest MustCompile re_Longest (DeferredRegex_lit P) =
       (case re_Longest (Some r) of
          Inl e \<Rightarrow> (Inl e, \<lparr>Re = P, once = True, re = Some r\<rparr>)
        | Inr r' \<Rightarrow> (Inr (), \<lparr>Re = P, once = True, re = Some r'\<rparr>))
   \<and> fst (Match MustCompile re_Match (DeferredRegex_lit P) b)
       = re_Match (Some r) b
   \<and> fst (MatchReader MustCompile re_MatchReader (DeferredRegex_lit P) rd)
       = re_MatchReader (Some r) rd
   \<and> fst (NumSubexp MustCompile re_NumSubexp (DeferredRegex_lit P))
       = re_NumSubexp (Some r)
   \<and> fst (ReplaceAll MustCompile re_ReplaceAll (DeferredRegex_lit P) src repl)
       = re_ReplaceAll (Some r) src repl
   \<and> fst (ReplaceAllFunc MustCompile re_ReplaceAllFunc (DeferredRegex_lit P) src replf)
       = re_ReplaceAllFunc (Some r) src replf
   \<and> fst (ReplaceAllLiteral MustCompile re_ReplaceAllLiteral
            (DeferredRegex_lit P) src repl)
       = re_ReplaceAllLiteral (Some r) src repl
   \<and> fst (ReplaceAllLiteralString MustCompile re_ReplaceAllLiteralString
            (DeferredRegex_lit P) src' repl')
       = re_ReplaceAllLiteralString (Some r) src' repl'
   \<and> fst (ReplaceAllString MustCompile re_ReplaceAllString
            (DeferredRegex_lit P) src' repl')
       = re_ReplaceAllString (Some r) src' repl'
   \<and> fst (ReplaceAllStringFunc MustCompile re_ReplaceAllStringFunc
            (DeferredRegex_lit P) src' replf')
       = re_ReplaceAllStringFunc (Some r) src' replf'
   \<and> fst (Split MustCompile re_Split (DeferredRegex_lit P) s n)
       = re_Split (Some r) s n
   \<and> fst (String MustCompile re_String (DeferredRegex_lit P))
       = re_String (Some r)
   \<and> fst (SubexpIndex MustCompile re_SubexpIndex (DeferredRegex_lit P) name)
       = re_SubexpIndex (Some r) name
   \<and> fst (SubexpNames MustCompile re_SubexpNames (DeferredRegex_lit P))
       = re_SubexpNames (Some r)"
  unfolding passthrough_defs Longest_def
  by (simp add: init_then_def init_def DeferredRegex_lit_def assms split: sum.split)

lemma compile_a_plus_b:
  "regexp_MustCompile ''a+b'' =
     Some \<lparr>expr = ''a+b'', prog = OpConcat (OpPlus (OpLiteral CHR ''a'')) (OpLiteral CHR ''b''),
           numSubexp = 0, longest = False\<rparr>"
  by (simp add: regexp_MustCompile_def parse_def pstep_def pfinish_def close_frame_def push_def
      code_def is_alnum_def repeat_def)

theorem deferred_equals_eager_witness:
  "regexp_MustCompile ''a+b'' =
     Some \<lparr>expr = ''a+b'', prog = OpConcat (OpPlus (OpLiteral CHR ''a'')) (OpLiteral CHR ''b''),
           numSubexp = 0, longest = False\<rparr>
   \<and> fst (MatchString regexp_MustCompile regexp_MatchString (DeferredRegex_lit ''a+b'') ''xaab'')
       = regexp_MatchString (regexp_MustCompile ''a+b'') ''xaab''
   \<and> fst (MatchString regexp_MustCompile regexp_MatchString (DeferredRegex_lit ''a+b'') ''xaab'')
       = Inr True
   \<and> fst (MatchString regexp_MustCompile regexp_MatchString (DeferredRegex_lit ''a+b'') ''ba'')
       = Inr False"
  using deferred_equals_eager [where MustCompile = regexp_MustCompile and P = "''a+b''"
      and re_MatchString = regexp_MatchString and s = "''xaab''", OF compile_a_plus_b,
      THEN conjunct1]
    deferred_equals_eager [where MustCompile = regexp_MustCompile and P = "''a+b''"
      and re_MatchString = regexp_MatchString and s = "''ba''", OF compile_a_plus_b,
      THEN conjunct1]
  by (simp add: compile_a_plus_b regexp_MatchString_def pick_def)

section \<open>Loading and rendering a pattern\<close>

text \<open>
  C5. For every pattern string \<open>P\<close>, the empty string and strings of metacharacters
  included, \<open>MarshalText\<close> on \<^verbatim>\<open>DeferredRegex{Re: P}\<close> returns the bytes of \<open>P\<close> and a nil
  error; it does so in every state of the instance, compiled or not; and \<open>UnmarshalText\<close>
  of the bytes it returned gives an instance whose pattern field is \<open>P\<close> again.
\<close>

theorem marshal_text_roundtrip:
  "fst (MarshalText (DeferredRegex_lit P)) = (Some P, None)
   \<and> fst (MarshalText dr) = (Some (Re dr), None)
   \<and> Re (snd (UnmarshalText dr' (fst (fst (MarshalText dr))))) = Re dr
   \<and> fst (UnmarshalText dr' (fst (fst (MarshalText dr)))) = None
   \<and> snd (UnmarshalText (DeferredRegex_lit Q) (fst (fst (MarshalText (DeferredRegex_lit P)))))
       = DeferredRegex_lit P"
  by (simp add: MarshalText_def UnmarshalText_def DeferredRegex_lit_def
      string_of_bytes_def bytes_of_string_def)

text \<open>
  C6. For every input, \<open>UnmarshalText\<close> and \<open>UnmarshalFlag\<close> return a nil error, set
  the pattern field to exactly the text given and leave the once flag and the compiled
  handle as they were: nothing is compiled.
\<close>

theorem unmarshal_accepts_any_text:
  "UnmarshalText dr text = (None, dr\<lparr>Re := string_of_bytes text\<rparr>)
   \<and> once (snd (UnmarshalText dr text)) = once dr
   \<and> re (snd (UnmarshalText dr text)) = re dr
   \<and> Re (snd (UnmarshalText dr (Some t))) = t
   \<and> UnmarshalFlag dr t = (None, dr\<lparr>Re := t\<rparr>)
   \<and> once (snd (UnmarshalFlag dr t)) = once dr
   \<and> re (snd (UnmarshalFlag dr t)) = re dr
   \<and> Re (snd (UnmarshalFlag dr t)) = t"
  by (simp add: UnmarshalText_def UnmarshalFlag_def string_of_bytes_def)

text \<open>
  C7. The flag pair does what the text pair does: in every state \<open>MarshalFlag\<close> returns
  the string whose bytes \<open>MarshalText\<close> returns, both with a nil error and both leaving
  the instance as it was, and \<open>UnmarshalFlag(s)\<close> returns the same nil error and leaves
  the instance in the same state as \<open>UnmarshalText\<close> of the bytes of \<open>s\<close>.
\<close>

theorem flag_pair_equals_text_pair:
  "fst (fst (MarshalText dr)) = bytes_of_string (fst (fst (MarshalFlag dr)))
   \<and> string_of_bytes (fst (fst (MarshalText dr))) = fst (fst (MarshalFlag dr))
   \<and> snd (fst (MarshalText dr)) = None
   \<and> snd (fst (MarshalFlag dr)) = None
   \<and> snd (MarshalFlag dr) = snd (MarshalText dr)
   \<and> UnmarshalFlag dr s = UnmarshalText dr (bytes_of_string s)"
  by (simp add: MarshalText_def MarshalFlag_def UnmarshalText_def UnmarshalFlag_def
      string_of_bytes_def bytes_of_string_def)

section \<open>Loading a pattern after the first use\<close>

lemma compile_a_plus:
  "regexp_MustCompile ''a+'' =
     Some \<lparr>expr = ''a+'', prog = OpPlus (OpLiteral CHR ''a''), numSubexp = 0, longest = False\<rparr>"
  by (simp add: regexp_MustCompile_def parse_def pstep_def pfinish_def close_frame_def push_def
      code_def is_alnum_def repeat_def)

lemma compile_b_plus:
  "regexp_MustCompile ''b+'' =
     Some \<lparr>expr = ''b+'', prog = OpPlus (OpLiteral CHR ''b''), numSubexp = 0, longest = False\<rparr>"
  by (simp add: regexp_MustCompile_def parse_def pstep_def pfinish_def close_frame_def push_def
      code_def is_alnum_def repeat_def)

text \<open>
  C3. An instance that has been compiled (its once flag is set and its handle holds
  the object \<open>r\<close> compiled from the pattern it had at its first use) is not compiled
  again when \<open>UnmarshalText\<close> or \<open>UnmarshalFlag\<close> loads another pattern \<open>Q\<close>: both only
  replace the pattern field, \<open>init\<close> then does nothing, and every pass-through method
  returns what it returns on the instance whose pattern was never replaced, leaving
  the state that call leaves but for the pattern field.
\<close>

theorem load_after_compile_is_inert:
  assumes "once dr" and "re dr = Some r"
  shows
  "MatchString MustCompile re_MatchString (dr\<lparr>Re := Q\<rparr>) s
       = (fst (MatchString MustCompile re_MatchString dr s),
          (snd (MatchString MustCompile re_MatchString dr s))\<lparr>Re := Q\<rparr>)
   \<and> Expand MustCompile re_Expand (dr\<lparr>Re := Q\<rparr>) dst template src match
       = (fst (Expand MustCompile re_Expand dr dst template src match),
          (snd (Expand MustCompile re_Expand dr dst template src match))\<lparr>Re := Q\<rparr>)
   \<and> ExpandString MustCompile re_ExpandString
            (dr\<lparr>Re := Q\<rparr>) dst template' src' match
       = (fst (ExpandString MustCompile re_ExpandString dr dst template' src' match),
          (snd (ExpandString MustCompile re_ExpandString dr dst template' src' match))\<lparr>Re := Q\<rparr>)
   \<and> Find MustCompile re_Find (dr\<lparr>Re := Q\<rparr>) b
       = (fst (Find MustCompile re_Find dr b),
          (snd (Find MustCompile re_Find dr b))\<lparr>Re := Q\<rparr>)
   \<and> FindAll MustCompile re_FindAll (dr\<lparr>Re := Q\<rparr>) b n
       = (fst (FindAll MustCompile re_FindAll dr b n),
          (snd (FindAll MustCompile re_FindAll dr b n))\<lparr>Re := Q\<rparr>)
   \<and> FindAllIndex MustCompile re_FindAllIndex (dr\<lparr>Re := Q\<rparr>) b n
       = (fst (FindAllIndex MustCompile re_FindAllIndex dr b n),
          (snd (FindAllIndex MustCompile re_FindAllIndex dr b n))\<lparr>Re := Q\<rparr>)
   \<and> FindAllString MustCompile re_FindAllString (dr\<lparr>Re := Q\<rparr>) s n
       = (fst (FindAllString MustCompile re_FindAllString dr s n),
          (snd (FindAllString MustCompile re_FindAllString dr s n))\<lparr>Re := Q\<rparr>)
   \<and> FindAllStringIndex MustCompile re_FindAllStringIndex (dr\<lparr>Re := Q\<rparr>) s n
       = (fst (FindAllStringIndex MustCompile re_FindAllStringIndex dr s n),
          (snd (FindAllStringIndex MustCompile re_FindAllStringIndex dr s n))\<lparr>Re := Q\<rparr>)
   \<and> FindAllStringSubmatch MustCompile re_FindAllStringSubmatch (dr\<lparr>Re := Q\<rparr>) s n
       = (fst (FindAllStringSubmatch MustCompile re_FindAllStringSubmatch dr s n),
          (snd (FindAllStringSubmatch MustCompile re_FindAllStringSubmatch dr s n))\<lparr>Re := Q\<rparr>)
   \<and> FindAllStringSubmatchIndex MustCompile re_FindAllStringSubmatchIndex
            (dr\<lparr>Re := Q\<rparr>) s n
       = (fst (FindAllStringSubmatchIndex MustCompile re_FindAllStringSubmatchIndex dr s n),
          (snd (FindAllStringSubmatchIndex MustCompile re_FindAllStringSubmatchIndex dr s n))\<lparr>Re := Q\<rparr>)
   \<and> FindAllSubmatch MustCompile re_FindAllSubmatch (dr\<lparr>Re := Q\<rparr>) b n
       = (fst (FindAllSubmatch MustCompile re_FindAllSubmatch dr b n),
          (snd (FindAllSubmatch MustCompile re_FindAllSubmatch dr b n))\<lparr>Re := Q\<rparr>)
   \<and> FindAllSubmatchIndex MustCompile re_FindAllSubmatchIndex (dr\<lparr>Re := Q\<rparr>) b n
       = (fst (FindAllSubmatchIndex MustCompile re_FindAllSubmatchIndex dr b n),
          (snd (FindAllSubmatchIndex MustCompile re_FindAllSubmatchIndex dr b n))\<lparr>Re := Q\<rparr>)
   \<and> FindIndex MustCompile re_FindIndex (dr\<lparr>Re := Q\<rparr>) b
       = (fst (FindIndex MustCompile re_FindIndex dr b),
          (snd (FindIndex MustCompile re_FindIndex dr b))\<lparr>Re := Q\<rparr>)
   \<and> FindReaderIndex MustCompile re_FindReaderIndex (dr\<lparr>Re := Q\<rparr>) rd
       = (fst (FindReaderIndex MustCompile re_FindReaderIndex dr rd),
          (snd (FindReaderIndex MustCompile re_FindReaderIndex dr rd))\<lparr>Re := Q\<rparr>)
   \<and> FindReaderSubmatchIndex MustCompile re_FindReaderSubmatchIndex
            (dr\<lparr>Re := Q\<rparr>) rd
       = (fst (FindReaderSubmatchIndex MustCompile re_FindReaderSubmatchIndex dr rd),
          (snd (FindReaderSubmatchIndex MustCompile re_FindReaderSubmatchIndex dr rd))\<lparr>Re := Q\<rparr>)
   \<and> FindString MustCompile re_FindString (dr\<lparr>Re := Q\<rparr>) s
       = (fst (FindString MustCompile re_FindString dr s),
          (snd (FindString MustCompile re_FindString dr s))\<lparr>Re := Q\<rparr>)
   \<and> FindStringIndex MustCompile re_FindStringIndex (dr\<lparr>Re := Q\<rparr>) s
       = (fst (FindStringIndex MustCompile re_FindStringIndex dr s),
          (snd (FindStringIndex MustCompile re_FindStringIndex dr s))\<lparr>Re := Q\<rparr>)
   \<and> FindStringSubmatch MustCompile re_FindStringSubmatch (dr\<lparr>Re := Q\<rparr>) s
       = (fst (FindStringSubmatch MustCompile re_FindStringSubmatch dr s),
          (snd (FindStringSubmatch MustCompile re_FindStringSubmatch dr s))\<lparr>Re := Q\<rparr>)
   \<and> FindStringSubmatchIndex MustCompile re_FindStringSubmatchIndex
            (dr\<lparr>Re := Q\<rparr>) s
       = (fst (FindStringSubmatchIndex MustCompile re_FindStringSubmatchIndex dr s),
          (snd (FindStringSubmatchIndex MustCompile re_FindStringSubmatchIndex dr s))\<lparr>Re := Q\<rparr>)
   \<and> FindSubmatch MustCompile re_FindSubmatch (dr\<lparr>Re := Q\<rparr>) b
       = (fst (FindSubmatch MustCompile re_FindSubmatch dr b),
          (snd (FindSubmatch MustCompile re_FindSubmatch dr b))\<lparr>Re := Q\<rparr>)
   \<and> FindSubmatchIndex MustCompile re_FindSubmatchIndex (dr\<lparr>Re := Q\<rparr>) b
       = (fst (FindSubmatchIndex MustCompile re_FindSubmatchIndex dr b),
          (snd (FindSubmatchIndex MustCompile re_FindSubmatchIndex dr b))\<lparr>Re := Q\<rparr>)
   \<and> LiteralPrefix MustCompile re_LiteralPrefix (dr\<lparr>Re := Q\<rparr>)
       = (fst (LiteralPrefix MustCompile re_LiteralPrefix dr),
          (snd (LiteralPrefix MustCompile re_LiteralPrefix dr))\<lparr>Re := Q\<rparr>)
   \<and> Longest MustCompile re_Longest (dr\<lparr>Re := Q\<rparr>)
       = (fst (Longest MustCompile re_Longest dr),
          (snd (Longest MustCompile re_Longest dr))\<lparr>Re := Q\<rparr>)
   \<and> Match MustCompile re_Match (dr\<lparr>Re := Q\<rparr>) b
       = (fst (Match MustCompile re_Match dr b),
          (snd (Match MustCompile re_Match dr b))\<lparr>Re := Q\<rparr>)
   \<and> MatchReader MustCompile re_MatchReader (dr\<lparr>Re := Q\<rparr>) rd
       = (fst (MatchReader MustCompile re_MatchReader dr rd),
          (snd (MatchReader MustCompile re_MatchReader dr rd))\<lparr>Re := Q\<rparr>)
   \<and> NumSubexp MustCompile re_NumSubexp (dr\<lparr>Re := Q\<rparr>)
       = (fst (NumSubexp MustCompile re_NumSubexp dr),
          (snd (NumSubexp MustCompile re_NumSubexp dr))\<lparr>Re := Q\<rparr>)
   \<and> ReplaceAll MustCompile re_ReplaceAll (dr\<lparr>Re := Q\<rparr>) src repl
       = (fst (ReplaceAll MustCompile re_ReplaceAll dr src repl),
          (snd (ReplaceAll MustCompile re_ReplaceAll dr src repl))\<lparr>Re := Q\<rparr>)
   \<and> ReplaceAllFunc MustCompile re_ReplaceAllFunc (dr\<lparr>Re := Q\<rparr>) src replf
       = (fst (ReplaceAllFunc MustCompile re_ReplaceAllFunc dr src replf),
          (snd (ReplaceAllFunc MustCompile re_ReplaceAllFunc dr src replf))\<lparr>Re := Q\<rparr>)
   \<and> ReplaceAllLiteral MustCompile re_ReplaceAllLiteral (dr\<lparr>Re := Q\<rparr>) src repl
       = (fst (ReplaceAllLiteral MustCompile re_ReplaceAllLiteral dr src repl),
          (snd (ReplaceAllLiteral MustCompile re_ReplaceAllLiteral dr src repl))\<lparr>Re := Q\<rparr>)
   \<and> ReplaceAllLiteralString MustCompile re_ReplaceAllLiteralString
            (dr\<lparr>Re := Q\<rparr>) src' repl'
       = (fst (ReplaceAllLiteralString MustCompile re_ReplaceAllLiteralString dr src' repl'),
          (snd (ReplaceAllLiteralString MustCompile re_ReplaceAllLiteralString dr src' repl'))\<lparr>Re := Q\<rparr>)
   \<and> ReplaceAllString MustCompile re_ReplaceAllString (dr\<lparr>Re := Q\<rparr>) src' repl'
       = (fst (ReplaceAllString MustCompile re_ReplaceAllString dr src' repl'),
          (snd (ReplaceAllString MustCompile re_ReplaceAllString dr src' repl'))\<lparr>Re := Q\<rparr>)
   \<and> ReplaceAllStringFunc MustCompile re_ReplaceAllStringFunc
            (dr\<lparr>Re := Q\<rparr>) src' replf'
       = (fst (ReplaceAllStringFunc MustCompile re_ReplaceAllStringFunc dr src' replf'),
          (snd (ReplaceAllStringFunc MustCompile re_ReplaceAllStringFunc dr src' replf'))\<lparr>Re := Q\<rparr>)
   \<and> Split MustCompile re_Split (dr\<lparr>Re := Q\<rparr>) s n
       = (fst (Split MustCompile re_Split dr s n),
          (snd (Split MustCompile re_Split dr s n))\<lparr>Re := Q\<rparr>)
   \<and> String MustCompile re_String (dr\<lparr>Re := Q\<rparr>)
       = (fst (String MustCompile re_String dr),
          (snd (String MustCompile re_String dr))\<lparr>Re := Q\<rparr>)
   \<and> SubexpIndex MustCompile re_SubexpIndex (dr\<lparr>Re := Q\<rparr>) name
       = (fst (SubexpIndex MustCompile re_SubexpIndex dr name),
          (snd (SubexpIndex MustCompile re_SubexpIndex dr name))\<lparr>Re := Q\<rparr>)
   \<and> SubexpNames MustCompile re_SubexpNames (dr\<lparr>Re := Q\<rparr>)
       = (fst (SubexpNames MustCompile re_SubexpNames dr),
          (snd (SubexpNames MustCompile re_SubexpNames dr))\<lparr>Re := Q\<rparr>)
   \<and> snd (UnmarshalText dr text) = dr\<lparr>Re := string_of_bytes text\<rparr>
   \<and> snd (UnmarshalFlag dr Q) = dr\<lparr>Re := Q\<rparr>
   \<and> init MustCompile (dr\<lparr>Re := Q\<rparr>) = (None, dr\<lparr>Re := Q\<rparr>)
   \<and> fst (MatchString MustCompile re_MatchString (dr\<lparr>Re := Q\<rparr>) s) = re_MatchString (Some r) s"
  unfolding passthrough_defs Longest_def
  by (simp add: init_then_def init_def UnmarshalText_def UnmarshalFlag_def assms
      split: sum.split)

theorem load_after_compile_is_inert_witness:
  "once (snd (MatchString regexp_MustCompile regexp_MatchString (DeferredRegex_lit ''a+'') ''b''))
   \<and> re (snd (MatchString regexp_MustCompile regexp_MatchString (DeferredRegex_lit ''a+'') ''b''))
       = regexp_MustCompile ''a+''
   \<and> Re (snd (UnmarshalText
         (snd (MatchString regexp_MustCompile regexp_MatchString (DeferredRegex_lit ''a+'') ''b''))
         (Some ''b+''))) = ''b+''
   \<and> fst (MatchString regexp_MustCompile regexp_MatchString
         (snd (UnmarshalText
            (snd (MatchString regexp_MustCompile regexp_MatchString (DeferredRegex_lit ''a+'') ''b''))
            (Some ''b+''))) ''aa'') = Inr True
   \<and> regexp_MatchString (regexp_MustCompile ''a+'') ''aa'' = Inr True
   \<and> regexp_MatchString (regexp_MustCompile ''b+'') ''aa'' = Inr False"
proof -
  let ?dr = "\<lparr>Re = ''a+'', once = True, re = regexp_MustCompile ''a+''\<rparr>"
  have first: "snd (MatchString regexp_MustCompile regexp_MatchString (DeferredRegex_lit ''a+'') ''b'')
      = ?dr"
    by (simp add: MatchString_def init_then_def init_def DeferredRegex_lit_def compile_a_plus)
  have compiled: "once ?dr" "re ?dr = Some \<lparr>expr = ''a+'', prog = OpPlus (OpLiteral CHR ''a''),
      numSubexp = 0, longest = False\<rparr>"
    by (simp_all add: compile_a_plus)
  note inert = load_after_compile_is_inert [where dr = "?dr" and MustCompile = regexp_MustCompile
      and re_MatchString = regexp_MatchString and Q = "''b+''" and s = "''aa''",
      OF compiled, THEN conjunct1]
  have later: "fst (MatchString regexp_MustCompile regexp_MatchString (?dr\<lparr>Re := ''b+''\<rparr>) ''aa'')
      = fst (MatchString regexp_MustCompile regexp_MatchString ?dr ''aa'')"
    using inert by simp
  have "fst (MatchString regexp_MustCompile regexp_MatchString ?dr ''aa'') = Inr True"
    by (simp add: MatchString_def init_then_def init_def compile_a_plus regexp_MatchString_def
        pick_def)
  with later first show ?thesis
    by (simp add: UnmarshalText_def string_of_bytes_def compile_a_plus compile_b_plus
        regexp_MatchString_def pick_def)
qed

section \<open>An invalid pattern\<close>

lemma parse_unclosed_group:
  "parse ''a(b'' = Inl (Invalid ''missing closing )'')"
  by (simp add: parse_def pstep_def pfinish_def close_frame_def push_def code_def is_alnum_def)

lemma compile_unclosed_group:
  "regexp_MustCompile ''a(b'' = None"
  by (simp add: regexp_MustCompile_def parse_unclosed_group)

text \<open>
  C4. Let \<open>regexp.MustCompile\<close> panic on the pattern of an instance that has not been
  used. Making the instance did not fail: the literal is a value, and \<open>UnmarshalText\<close>
  and \<open>UnmarshalFlag\<close> return a nil error and give the same instance as the literal.
  \<open>MarshalText\<close> and \<open>MarshalFlag\<close> return normally on it. The first pass-through
  method called on it, whichever it is, panics with the panic of \<open>MustCompile\<close> for that
  pattern, and sets the once flag. No later call raises it: with the flag set, a
  method no longer calls \<open>MustCompile\<close> and is the method of \<open>regexp\<close> on the handle
  as it stands (nil, on such an instance).
\<close>

theorem invalid_pattern_panics_at_first_use:
  assumes "MustCompile (Re dr) = None" and "\<not> once dr"
  shows
  "MatchString MustCompile re_MatchString dr s
       = (Inl (MustCompilePanic (Re dr)), dr\<lparr>once := True\<rparr>)
   \<and> MatchString MustCompile re_MatchString (dr\<lparr>once := True\<rparr>) s
       = (re_MatchString (re dr) s, dr\<lparr>once := True\<rparr>)
   \<and> Expand MustCompile re_Expand dr dst template src match
       = (Inl (MustCompilePanic (Re dr)), dr\<lparr>once := True\<rparr>)
   \<and> Expand MustCompile re_Expand (dr\<lparr>once := True\<rparr>) dst template src match
       = (re_Expand (re dr) dst template src match, dr\<lparr>once := True\<rparr>)
   \<and> ExpandString MustCompile re_ExpandString dr dst template' src' match
       = (Inl (MustCompilePanic (Re dr)), dr\<lparr>once := True\<rparr>)
   \<and> ExpandString MustCompile re_ExpandString
            (dr\<lparr>once := True\<rparr>) dst template' src' match
       = (re_ExpandString (re dr) dst template' src' match, dr\<lparr>once := True\<rparr>)
   \<and> Find MustCompile re_Find dr b
       = (Inl (MustCompilePanic (Re dr)), dr\<lparr>once := True\<rparr>)
   \<and> Find MustCompile re_Find (dr\<lparr>once := True\<rparr>) b
       = (re_Find (re dr) b, dr\<lparr>once := True\<rparr>)
   \<and> FindAll MustCompile re_FindAll dr b n
       = (Inl (MustCompilePanic (Re dr)), dr\<lparr>once := True\<rparr>)
   \<and> FindAll MustCompile re_FindAll (dr\<lparr>once := True\<rparr>) b n
       = (re_FindAll (re dr) b n, dr\<lparr>once := True\<rparr>)
   \<and> FindAllIndex MustCompile re_FindAllIndex dr b n
       = (Inl (MustCompilePanic (Re dr)), dr\<lparr>once := True\<rparr>)
   \<and> FindAllIndex MustCompile re_FindAllIndex (dr\<lparr>once := True\<rparr>) b n
       = (re_FindAllIndex (re dr) b n, dr\<lparr>once := True\<rparr>)
   \<and> FindAllString MustCompile re_FindAllString dr s n
       = (Inl (MustCompilePanic (Re dr)), dr\<lparr>once := True\<rparr>)
   \<and> FindAllString MustCompile re_FindAllString (dr\<lparr>once := True\<rparr>) s n
       = (re_FindAllString (re dr) s n, dr\<lparr>once := True\<rparr>)
   \<and> FindAllStringIndex MustCompile re_FindAllStringIndex dr s n
       = (Inl (MustCompilePanic (Re dr)), dr\<lparr>once := True\<rparr>)
   \<and> FindAllStringIndex MustCompile re_FindAllStringIndex (dr\<lparr>once := True\<rparr>) s n
       = (re_FindAllStringIndex (re dr) s n, dr\<lparr>once := True\<rparr>)
   \<and> FindAllStringSubmatch MustCompile re_FindAllStringSubmatch dr s n
       = (Inl (MustCompilePanic (Re dr)), dr\<lparr>once := True\<rparr>)
   \<and> FindAllStringSubmatch MustCompile re_FindAllStringSubmatch
            (dr\<lparr>once := True\<rparr>) s n
       = (re_FindAllStringSubmatch (re dr) s n, dr\<lparr>once := True\<rparr>)
   \<and> FindAllStringSubmatchIndex MustCompile re_FindAllStringSubmatchIndex dr s n
       = (Inl (MustCompilePanic (Re dr)), dr\<lparr>once := True\<rparr>)
   \<and> FindAllStringSubmatchIndex MustCompile re_FindAllStringSubmatchIndex
            (dr\<lparr>once := True\<rparr>) s n
       = (re_FindAllStringSubmatchIndex (re dr) s n, dr\<lparr>once := True\<rparr>)
   \<and> FindAllSubmatch MustCompile re_FindAllSubmatch dr b n
       = (Inl (MustCompilePanic (Re dr)), dr\<lparr>once := True\<rparr>)
   \<and> FindAllSubmatch MustCompile re_FindAllSubmatch (dr\<lparr>once := True\<rparr>) b n
       = (re_FindAllSubmatch (re dr) b n, dr\<lparr>once := True\<rparr>)
   \<and> FindAllSubmatchIndex MustCompile re_FindAllSubmatchIndex dr b n
       = (Inl (MustCompilePanic (Re dr)), dr\<lparr>once := True\<rparr>)
   \<and> FindAllSubmatchIndex MustCompile re_FindAllSubmatchIndex
            (dr\<lparr>once := True\<rparr>) b n
       = (re_FindAllSubmatchIndex (re dr) b n, dr\<lparr>once := True\<rparr>)
   \<and> FindIndex MustCompile re_FindIndex dr b
       = (Inl (MustCompilePanic (Re dr)), dr\<lparr>once := True\<rparr>)
   \<and> FindIndex MustCompile re_FindIndex (dr\<lparr>once := True\<rparr>) b
       = (re_FindIndex (re dr) b, dr\<lparr>once := True\<rparr>)
   \<and> FindReaderIndex MustCompile re_FindReaderIndex dr rd
       = (Inl (MustCompilePanic (Re dr)), dr\<lparr>once := True\<rparr>)
   \<and> FindReaderIndex MustCompile re_FindReaderIndex (dr\<lparr>once := True\<rparr>) rd
       = (re_FindReaderIndex (re dr) rd, dr\<lparr>once := True\<rparr>)
   \<and> FindReaderSubmatchIndex MustCompile re_FindReaderSubmatchIndex dr rd
       = (Inl (MustCompilePanic (Re dr)), dr\<lparr>once := True\<rparr>)
   \<and> FindReaderSubmatchIndex MustCompile re_FindReaderSubmatchIndex
            (dr\<lparr>once := True\<rparr>) rd
       = (re_FindReaderSubmatchIndex (re dr) rd, dr\<lparr>once := True\<rparr>)
   \<and> FindString MustCompile re_FindString dr s
       = (Inl (MustCompilePanic (Re dr)), dr\<lparr>once := True\<rparr>)
   \<and> FindString MustCompile re_FindString (dr\<lparr>once := True\<rparr>) s
       = (re_FindString (re dr) s, dr\<lparr>once := True\<rparr>)
   \<and> FindStringIndex MustCompile re_FindStringIndex dr s
       = (Inl (MustCompilePanic (Re dr)), dr\<lparr>once := True\<rparr>)
   \<and> FindStringIndex MustCompile re_FindStringIndex (dr\<lparr>once := True\<rparr>) s
       = (re_FindStringIndex (re dr) s, dr\<lparr>once := True\<rparr>)
   \<and> FindStringSubmatch MustCompile re_FindStringSubmatch dr s
       = (Inl (MustCompilePanic (Re dr)), dr\<lparr>once := True\<rparr>)
   \<and> FindStringSubmatch MustCompile re_FindStringSubmatch (dr\<lparr>once := True\<rparr>) s
       = (re_FindStringSubmatch (re dr) s, dr\<lparr>once := True\<rparr>)
   \<and> FindStringSubmatchIndex MustCompile re_FindStringSubmatchIndex dr s
       = (Inl (MustCompilePanic (Re dr)), dr\<lparr>once := True\<rparr>)
   \<and> FindStringSubmatchIndex MustCompile re_FindStringSubmatchIndex
            (dr\<lparr>once := True\<rparr>) s
       = (re_FindStringSubmatchIndex (re dr) s, dr\<lparr>once := True\<rparr>)
   \<and> FindSubmatch MustCompile re_FindSubmatch dr b
       = (Inl (MustCompilePanic (Re dr)), dr\<lparr>once := True\<rparr>)
   \<and> FindSubmatch MustCompile re_FindSubmatch (dr\<lparr>once := True\<rparr>) b
       = (re_FindSubmatch (re dr) b, dr\<lparr>once := True\<rparr>)
   \<and> FindSubmatchIndex MustCompile re_FindSubmatchIndex dr b
       = (Inl (MustCompilePanic (Re dr)), dr\<lparr>once := True\<rparr>)
   \<and> FindSubmatchIndex MustCompile re_FindSubmatchIndex (dr\<lparr>once := True\<rparr>) b
       = (re_FindSubmatchIndex (re dr) b, dr\<lparr>once := True\<rparr>)
   \<and> LiteralPrefix MustCompile re_LiteralPrefix dr
       = (Inl (MustCompilePanic (Re dr)), dr\<lparr>once := True\<rparr>)
   \<and> LiteralPrefix MustCompile re_LiteralPrefix (dr\<lparr>once := True\<rparr>)
       = (re_LiteralPrefix (re dr), dr\<lparr>once := True\<rparr>)
   \<and> Longest MustCompile re_Longest dr
       = (Inl (MustCompilePanic (Re dr)), dr\<lparr>once := True\<rparr>)
   \<and> Longest MustCompile re_Longest (dr\<lparr>once := True\<rparr>)
       = (case re_Longest (re dr) of
            Inl e \<Rightarrow> (Inl e, dr\<lparr>once := True\<rparr>)
          | Inr r' \<Rightarrow> (Inr (), dr\<lparr>once := True, re := Some r'\<rparr>))
   \<and> Match MustCompile re_Match dr b
       = (Inl (MustCompilePanic (Re dr)), dr\<lparr>once := True\<rparr>)
   \<and> Match MustCompile re_Match (dr\<lparr>once := True\<rparr>) b
       = (re_Match (re dr) b, dr\<lparr>once := True\<rparr>)
   \<and> MatchReader MustCompile re_MatchReader dr rd
       = (Inl (MustCompilePanic (Re dr)), dr\<lparr>once := True\<rparr>)
   \<and> MatchReader MustCompile re_MatchReader (dr\<lparr>once := True\<rparr>) rd
       = (re_MatchReader (re dr) rd, dr\<lparr>once := True\<rparr>)
   \<and> NumSubexp MustCompile re_NumSubexp dr
       = (Inl (MustCompilePanic (Re dr)), dr\<lparr>once := True\<rparr>)
   \<and> NumSubexp MustCompile re_NumSubexp (dr\<lparr>once := True\<rparr>)
       = (re_NumSubexp (re dr), dr\<lparr>once := True\<rparr>)
   \<and> ReplaceAll MustCompile re_ReplaceAll dr src repl
       = (Inl (MustCompilePanic (Re dr)), dr\<lparr>once := True\<rparr>)
   \<and> ReplaceAll MustCompile re_ReplaceAll (dr\<lparr>once := True\<rparr>) src repl
       = (re_ReplaceAll (re dr) src repl, dr\<lparr>once := True\<rparr>)
   \<and> ReplaceAllFunc MustCompile re_ReplaceAllFunc dr src replf
       = (Inl (MustCompilePanic (Re dr)), dr\<lparr>once := True\<rparr>)
   \<and> ReplaceAllFunc MustCompile re_ReplaceAllFunc (dr\<lparr>once := True\<rparr>) src replf
       = (re_ReplaceAllFunc (re dr) src replf, dr\<lparr>once := True\<rparr>)
   \<and> ReplaceAllLiteral MustCompile re_ReplaceAllLiteral dr src repl
       = (Inl (MustCompilePanic (Re dr)), dr\<lparr>once := True\<rparr>)
   \<and> ReplaceAllLiteral MustCompile re_ReplaceAllLiteral
            (dr\<lparr>once := True\<rparr>) src repl
       = (re_ReplaceAllLiteral (re dr) src repl, dr\<lparr>once := True\<rparr>)
   \<and> ReplaceAllLiteralString MustCompile re_ReplaceAllLiteralString dr src' repl'
       = (Inl (MustCompilePanic (Re dr)), dr\<lparr>once := True\<rparr>)
   \<and> ReplaceAllLiteralString MustCompile re_ReplaceAllLiteralString
            (dr\<lparr>once := True\<rparr>) src' repl'
       = (re_ReplaceAllLiteralString (re dr) src' repl', dr\<lparr>once := True\<rparr>)
   \<and> ReplaceAllString MustCompile re_ReplaceAllString dr src' repl'
       = (Inl (MustCompilePanic (Re dr)), dr\<lparr>once := True\<rparr>)
   \<and> ReplaceAllString MustCompile re_ReplaceAllString
            (dr\<lparr>once := True\<rparr>) src' repl'
       = (re_ReplaceAllString (re dr) src' repl', dr\<lparr>once := True\<rparr>)
   \<and> ReplaceAllStringFunc MustCompile re_ReplaceAllStringFunc dr src' replf'
       = (Inl (MustCompilePanic (Re dr)), dr\<lparr>once := True\<rparr>)
   \<and> ReplaceAllStringFunc MustCompile re_ReplaceAllStringFunc
            (dr\<lparr>once := True\<rparr>) src' replf'
       = (re_ReplaceAllStringFunc (re dr) src' replf', dr\<lparr>once := True\<rparr>)
   \<and> Split MustCompile re_Split dr s n
       = (Inl (MustCompilePanic (Re dr)), dr\<lparr>once := True\<rparr>)
   \<and> Split MustCompile re_Split (dr\<lparr>once := True\<rparr>) s n
       = (re_Split (re dr) s n, dr\<lparr>once := True\<rparr>)
   \<and> String MustCompile re_String dr
       = (Inl (MustCompilePanic (Re dr)), dr\<lparr>once := True\<rparr>)
   \<and> String MustCompile re_String (dr\<lparr>once := True\<rparr>)
       = (re_String (re dr), dr\<lparr>once := True\<rparr>)
   \<and> SubexpIndex MustCompile re_SubexpIndex dr name
       = (Inl (MustCompilePanic (Re dr)), dr\<lparr>once := True\<rparr>)
   \<and> SubexpIndex MustCompile re_SubexpIndex (dr\<lparr>once := True\<rparr>) name
       = (re_SubexpIndex (re dr) name, dr\<lparr>once := True\<rparr>)
   \<and> SubexpNames MustCompile re_SubexpNames dr
       = (Inl (MustCompilePanic (Re dr)), dr\<lparr>once := True\<rparr>)
   \<and> SubexpNames MustCompile re_SubexpNames (dr\<lparr>once := True\<rparr>)
       = (re_SubexpNames (re dr), dr\<lparr>once := True\<rparr>)
   \<and> fst (MarshalText dr) = (bytes_of_string (Re dr), None)
   \<and> fst (MarshalFlag dr) = (Re dr, None)
   \<and> \<not> once (DeferredRegex_lit P :: 'r DeferredRegex)
   \<and> Re (DeferredRegex_lit P :: 'r DeferredRegex) = P
   \<and> UnmarshalText (DeferredRegex_lit Q :: 'r DeferredRegex) (bytes_of_string P)
       = (None, DeferredRegex_lit P)
   \<and> UnmarshalFlag (DeferredRegex_lit Q :: 'r DeferredRegex) P = (None, DeferredRegex_lit P)"
  unfolding passthrough_defs Longest_def
  by (simp add: init_then_def init_def MarshalText_def MarshalFlag_def UnmarshalText_def
      UnmarshalFlag_def DeferredRegex_lit_def string_of_bytes_def bytes_of_string_def assms
      split: sum.split)

theorem invalid_pattern_panics_at_first_use_witness:
  "parse ''a(b'' = Inl (Invalid ''missing closing )'')
   \<and> regexp_MustCompile (Re (DeferredRegex_lit ''a(b'' :: Regexp DeferredRegex)) = None
   \<and> \<not> once (DeferredRegex_lit ''a(b'' :: Regexp DeferredRegex)
   \<and> MatchString regexp_MustCompile regexp_MatchString (DeferredRegex_lit ''a(b'') ''ab''
       = (Inl (MustCompilePanic ''a(b''), \<lparr>Re = ''a(b'', once = True, re = None\<rparr>)
   \<and> MatchString regexp_MustCompile regexp_MatchString
         \<lparr>Re = ''a(b'', once = True, re = None\<rparr> ''ab''
       = (Inl nil_dereference, \<lparr>Re = ''a(b'', once = True, re = None\<rparr>)"
proof -
  let ?dr = "DeferredRegex_lit ''a(b'' :: Regexp DeferredRegex"
  have invalid: "regexp_MustCompile (Re ?dr) = None"
    by (simp add: DeferredRegex_lit_def compile_unclosed_group)
  have fresh: "\<not> once ?dr"
    by (simp add: DeferredRegex_lit_def)
  note at_dr = invalid_pattern_panics_at_first_use [where dr = "?dr"
      and MustCompile = regexp_MustCompile and re_MatchString = regexp_MatchString
      and s = "''ab''", OF invalid fresh]
  from at_dr [THEN conjunct1] at_dr [THEN conjunct2, THEN conjunct1] invalid fresh show ?thesis
    by (simp add: DeferredRegex_lit_def parse_unclosed_group regexp_MatchString_def)
qed

section \<open>What a call changes\<close>

lemma compile_a_or_ab:
  "regexp_MustCompile ''a|ab'' =
     Some \<lparr>expr = ''a|ab'',
           prog = OpAlternate (OpLiteral CHR ''a'')
                    (OpConcat (OpLiteral CHR ''a'') (OpLiteral CHR ''b'')),
           numSubexp = 0, longest = False\<rparr>"
  by (simp add: regexp_MustCompile_def parse_def pstep_def pfinish_def close_frame_def push_def
      code_def is_alnum_def repeat_def)

lemma a_or_ab_compiled:
  "a_or_ab = \<lparr>Re = ''a|ab'', once = True, re = regexp_MustCompile ''a|ab''\<rparr>"
  by (simp add: a_or_ab_def MatchString_def init_then_def init_def DeferredRegex_lit_def
      compile_a_or_ab)

text \<open>
  C8 does not hold of \<open>Longest\<close> as it is stated: called on an instance that is
  already compiled, \<open>Longest\<close> changes the state, and what it changes is not the
  creation of the handle. With the pattern \<open>a|ab\<close>, \<open>FindString\<close> on the input \<open>ab\<close>
  returns \<open>a\<close> before the call of \<open>Longest\<close> and \<open>ab\<close> after it.
\<close>

theorem longest_changes_the_compiled_object:
  "once a_or_ab
   \<and> re a_or_ab = regexp_MustCompile ''a|ab''
   \<and> regexp_MustCompile ''a|ab'' \<noteq> None
   \<and> snd (Longest regexp_MustCompile regexp_Longest a_or_ab) \<noteq> a_or_ab
   \<and> snd (Longest regexp_MustCompile regexp_Longest a_or_ab)
       \<noteq> snd (init regexp_MustCompile a_or_ab)
   \<and> Re (snd (Longest regexp_MustCompile regexp_Longest a_or_ab)) = Re a_or_ab
   \<and> fst (FindString regexp_MustCompile regexp_FindString a_or_ab ''ab'') = Inr ''a''
   \<and> fst (FindString regexp_MustCompile regexp_FindString
          (snd (Longest regexp_MustCompile regexp_Longest a_or_ab)) ''ab'') = Inr ''ab''"
  by (simp add: a_or_ab_compiled compile_a_or_ab Longest_def FindString_def init_then_def init_def
      regexp_Longest_def regexp_FindString_def pick_def substr_def)

text \<open>
  C8, amended. No pass-through method changes the pattern field, and \<open>MarshalText\<close> and
  \<open>MarshalFlag\<close> change no field. What a pass-through method other than \<open>Longest\<close> does
  to the instance is what \<open>init\<close> does: nothing when the once flag is set; otherwise it
  sets the flag and, when the pattern compiles, stores the compiled object in the
  handle. \<open>Longest\<close> does the same and then, when \<open>regexp\<close>'s \<open>Longest\<close> returns, holds the
  object as that call changed it.
\<close>

theorem passthrough_frame:
  "Re (snd (MatchString MustCompile re_MatchString dr s)) = Re dr
   \<and> snd (MatchString MustCompile re_MatchString dr s)
       = snd (init MustCompile dr)
   \<and> Re (snd (Expand MustCompile re_Expand dr dst template src match)) = Re dr
   \<and> snd (Expand MustCompile re_Expand dr dst template src match)
       = snd (init MustCompile dr)
   \<and> Re (snd (ExpandString MustCompile re_ExpandString dr dst template' src' match)) = Re dr
   \<and> snd (ExpandString MustCompile re_ExpandString dr dst template' src' match)
       = snd (init MustCompile dr)
   \<and> Re (snd (Find MustCompile re_Find dr b)) = Re dr
   \<and> snd (Find MustCompile re_Find dr b)
       = snd (init MustCompile dr)
   \<and> Re (snd (FindAll MustCompile re_FindAll dr b n)) = Re dr
   \<and> snd (FindAll MustCompile re_FindAll dr b n)
       = snd (init MustCompile dr)
   \<and> Re (snd (FindAllIndex MustCompile re_FindAllIndex dr b n)) = Re dr
   \<and> snd (FindAllIndex MustCompile re_FindAllIndex dr b n)
       = snd (init MustCompile dr)
   \<and> Re (snd (FindAllString MustCompile re_FindAllString dr s n)) = Re dr
   \<and> snd (FindAllString MustCompile re_FindAllString dr s n)
       = snd (init MustCompile dr)
   \<and> Re (snd (FindAllStringIndex MustCompile re_FindAllStringIndex dr s n)) = Re dr
   \<and> snd (FindAllStringIndex MustCompile re_FindAllStringIndex dr s n)
       = snd (init MustCompile dr)
   \<and> Re (snd (FindAllStringSubmatch MustCompile re_FindAllStringSubmatch dr s n)) = Re dr
   \<and> snd (FindAllStringSubmatch MustCompile re_FindAllStringSubmatch dr s n)
       = snd (init MustCompile dr)
   \<and> Re (snd (FindAllStringSubmatchIndex MustCompile re_FindAllStringSubmatchIndex dr s n)) = Re dr
   \<and> snd (FindAllStringSubmatchIndex MustCompile re_FindAllStringSubmatchIndex dr s n)
       = snd (init MustCompile dr)
   \<and> Re (snd (FindAllSubmatch MustCompile re_FindAllSubmatch dr b n)) = Re dr
   \<and> snd (FindAllSubmatch MustCompile re_FindAllSubmatch dr b n)
       = snd (init MustCompile dr)
   \<and> Re (snd (FindAllSubmatchIndex MustCompile re_FindAllSubmatchIndex dr b n)) = Re dr
   \<and> snd (FindAllSubmatchIndex MustCompile re_FindAllSubmatchIndex dr b n)
       = snd (init MustCompile dr)
   \<and> Re (snd (FindIndex MustCompile re_FindIndex dr b)) = Re dr
   \<and> snd (FindIndex MustCompile re_FindIndex dr b)
       = snd (init MustCompile dr)
   \<and> Re (snd (FindReaderIndex MustCompile re_FindReaderIndex dr rd)) = Re dr
   \<and> snd (FindReaderIndex MustCompile re_FindReaderIndex dr rd)
       = snd (init MustCompile dr)
   \<and> Re (snd (FindReaderSubmatchIndex MustCompile re_FindReaderSubmatchIndex dr rd)) = Re dr
   \<and> snd (FindReaderSubmatchIndex MustCompile re_FindReaderSubmatchIndex dr rd)
       = snd (init MustCompile dr)
   \<and> Re (snd (FindString MustCompile re_FindString dr s)) = Re dr
   \<and> snd (FindString MustCompile re_FindString dr s)
       = snd (init MustCompile dr)
   \<and> Re (snd (FindStringIndex MustCompile re_FindStringIndex dr s)) = Re dr
   \<and> snd (FindStringIndex MustCompile re_FindStringIndex dr s)
       = snd (init MustCompile dr)
   \<and> Re (snd (FindStringSubmatch MustCompile re_FindStringSubmatch dr s)) = Re dr
   \<and> snd (FindStringSubmatch MustCompile re_FindStringSubmatch dr s)
       = snd (init MustCompile dr)
   \<and> Re (snd (FindStringSubmatchIndex MustCompile re_FindStringSubmatchIndex dr s)) = Re dr
   \<and> snd (FindStringSubmatchIndex MustCompile re_FindStringSubmatchIndex dr s)
       = snd (init MustCompile dr)
   \<and> Re (snd (FindSubmatch MustCompile re_FindSubmatch dr b)) = Re dr
   \<and> snd (FindSubmatch MustCompile re_FindSubmatch dr b)
       = snd (init MustCompile dr)
   \<and> Re (snd (FindSubmatchIndex MustCompile re_FindSubmatchIndex dr b)) = Re dr
   \<and> snd (FindSubmatchIndex MustCompile re_FindSubmatchIndex dr b)
       = snd (init MustCompile dr)
   \<and> Re (snd (LiteralPrefix MustCompile re_LiteralPrefix dr)) = Re dr
   \<and> snd (LiteralPrefix MustCompile re_LiteralPrefix dr)
       = snd (init MustCompile dr)
   \<and> Re (snd (Longest MustCompile re_Longest dr)) = Re dr
   \<and> snd (Longest MustCompile re_Longest dr)
       = (case init MustCompile dr of
            (Some e, dr') \<Rightarrow> dr'
          | (None, dr') \<Rightarrow>
              (case re_Longest (re dr') of
                 Inl e \<Rightarrow> dr'
               | Inr r' \<Rightarrow> dr'\<lparr>re := Some r'\<rparr>))
   \<and> Re (snd (Match MustCompile re_Match dr b)) = Re dr
   \<and> snd (Match MustCompile re_Match dr b)
       = snd (init MustCompile dr)
   \<and> Re (snd (MatchReader MustCompile re_MatchReader dr rd)) = Re dr
   \<and> snd (MatchReader MustCompile re_MatchReader dr rd)
       = snd (init MustCompile dr)
   \<and> Re (snd (NumSubexp MustCompile re_NumSubexp dr)) = Re dr
   \<and> snd (NumSubexp MustCompile re_NumSubexp dr)
       = snd (init MustCompile dr)
   \<and> Re (snd (ReplaceAll MustCompile re_ReplaceAll dr src repl)) = Re dr
   \<and> snd (ReplaceAll MustCompile re_ReplaceAll dr src repl)
       = snd (init MustCompile dr)
   \<and> Re (snd (ReplaceAllFunc MustCompile re_ReplaceAllFunc dr src replf)) = Re dr
   \<and> snd (ReplaceAllFunc MustCompile re_ReplaceAllFunc dr src replf)
       = snd (init MustCompile dr)
   \<and> Re (snd (ReplaceAllLiteral MustCompile re_ReplaceAllLiteral dr src repl)) = Re dr
   \<and> snd (ReplaceAllLiteral MustCompile re_ReplaceAllLiteral dr src repl)
       = snd (init MustCompile dr)
   \<and> Re (snd (ReplaceAllLiteralString MustCompile re_ReplaceAllLiteralString dr src' repl')) = Re dr
   \<and> snd (ReplaceAllLiteralString MustCompile re_ReplaceAllLiteralString dr src' repl')
       = snd (init MustCompile dr)
   \<and> Re (snd (ReplaceAllString MustCompile re_ReplaceAllString dr src' repl')) = Re dr
   \<and> snd (ReplaceAllString MustCompile re_ReplaceAllString dr src' repl')
       = snd (init MustCompile dr)
   \<and> Re (snd (ReplaceAllStringFunc MustCompile re_ReplaceAllStringFunc dr src' replf')) = Re dr
   \<and> snd (ReplaceAllStringFunc MustCompile re_ReplaceAllStringFunc dr src' replf')
       = snd (init MustCompile dr)
   \<and> Re (snd (Split MustCompile re_Split dr s n)) = Re dr
   \<and> snd (Split MustCompile re_Split dr s n)
       = snd (init MustCompile dr)
   \<and> Re (snd (String MustCompile re_String dr)) = Re dr
   \<and> snd (String MustCompile re_String dr)
       = snd (init MustCompile dr)
   \<and> Re (snd (SubexpIndex MustCompile re_SubexpIndex dr name)) = Re dr
   \<and> snd (SubexpIndex MustCompile re_SubexpIndex dr name)
       = snd (init MustCompile dr)
   \<and> Re (snd (SubexpNames MustCompile re_SubexpNames dr)) = Re dr
   \<and> snd (SubexpNames MustCompile re_SubexpNames dr)
       = snd (init MustCompile dr)
   \<and> snd (init MustCompile dr)
       = (if once dr then dr
          else dr\<lparr>once := True,
                  re := (case MustCompile (Re dr) of None \<Rightarrow> re dr | Some r \<Rightarrow> Some r)\<rparr>)
   \<and> snd (MarshalText dr) = dr
   \<and> snd (MarshalFlag dr) = dr"
  unfolding passthrough_defs Longest_def
  by (simp add: init_then_def init_def MarshalText_def MarshalFlag_def
      split: sum.split option.split)

section \<open>Two renderings of the pattern\<close>

lemma regexp_String_source:
  "regexp_MustCompile p = Some r \<Longrightarrow> regexp_String (Some r) = Inr p"
  by (auto simp add: regexp_MustCompile_def regexp_String_def split: sum.splits prod.splits)

text \<open>
  C10. \<open>regexp\<close>'s \<open>String\<close> returns the source text an object was compiled from; that
  is assumed of the parameters. Then \<open>String\<close> of the wrapper compiles: on a fresh
  instance whose pattern \<open>B\<close> does not compile it panics, where \<open>MarshalText\<close> returns the
  bytes of \<open>B\<close>; on a fresh instance whose pattern \<open>P\<close> compiles it returns \<open>P\<close> and
  leaves the instance compiled. After \<open>UnmarshalText\<close> has then loaded \<open>Q\<close>, \<open>String\<close>
  still returns \<open>P\<close> and \<open>MarshalText\<close> returns the bytes of \<open>Q\<close>; the same holds when
  another method, \<open>MatchString\<close>, made the first use.
\<close>

theorem string_and_marshal_text_diverge:
  assumes source_text: "\<And>p r. MustCompile p = Some r \<Longrightarrow> re_String (Some r) = Inr p"
  shows
  "(MustCompile B = None \<longrightarrow>
      fst (String MustCompile re_String (DeferredRegex_lit B)) = Inl (MustCompilePanic B)
      \<and> fst (MarshalText (DeferredRegex_lit B :: 'r DeferredRegex)) = (Some B, None))
   \<and> (MustCompile P = Some r \<longrightarrow>
      String MustCompile re_String (DeferredRegex_lit P)
        = (Inr P, \<lparr>Re = P, once = True, re = Some r\<rparr>)
      \<and> fst (String MustCompile re_String
            (snd (UnmarshalText (snd (String MustCompile re_String (DeferredRegex_lit P))) (Some Q))))
          = Inr P
      \<and> fst (MarshalText
            (snd (UnmarshalText (snd (String MustCompile re_String (DeferredRegex_lit P))) (Some Q))))
          = (Some Q, None)
      \<and> fst (String MustCompile re_String
            (snd (UnmarshalText
               (snd (MatchString MustCompile re_MatchString (DeferredRegex_lit P) s)) (Some Q))))
          = Inr P
      \<and> fst (MarshalText
            (snd (UnmarshalText
               (snd (MatchString MustCompile re_MatchString (DeferredRegex_lit P) s)) (Some Q))))
          = (Some Q, None))"
  by (auto simp add: String_def MatchString_def init_then_def init_def MarshalText_def
      UnmarshalText_def DeferredRegex_lit_def string_of_bytes_def bytes_of_string_def source_text)

theorem string_and_marshal_text_diverge_witness:
  "regexp_MustCompile ''a(b'' = None
   \<and> fst (String regexp_MustCompile regexp_String (DeferredRegex_lit ''a(b''))
       = Inl (MustCompilePanic ''a(b'')
   \<and> fst (MarshalText (DeferredRegex_lit ''a(b'' :: Regexp DeferredRegex)) = (Some ''a(b'', None)
   \<and> regexp_MustCompile ''a+'' \<noteq> None
   \<and> fst (String regexp_MustCompile regexp_String (DeferredRegex_lit ''a+'')) = Inr ''a+''
   \<and> fst (String regexp_MustCompile regexp_String
         (snd (UnmarshalText
            (snd (String regexp_MustCompile regexp_String (DeferredRegex_lit ''a+''))) (Some ''b+''))))
       = Inr ''a+''
   \<and> fst (MarshalText
         (snd (UnmarshalText
            (snd (String regexp_MustCompile regexp_String (DeferredRegex_lit ''a+''))) (Some ''b+''))))
       = (Some ''b+'', None)"
  using string_and_marshal_text_diverge [where MustCompile = regexp_MustCompile
      and re_String = regexp_String and B = "''a(b''" and P = "''a+''" and Q = "''b+''"
      and r = "\<lparr>expr = ''a+'', prog = OpPlus (OpLiteral CHR ''a''), numSubexp = 0, longest = False\<rparr>"
      and re_MatchString = regexp_MatchString and s = "''aa''",
      OF regexp_String_source]
  by (auto simp add: compile_unclosed_group compile_a_plus)

section \<open>The scenario of the test\<close>

lemma parse_semver_pattern:
  "parse semver_pattern =
     Inr (OpConcat (OpCapture 1 (OpPlus (OpCharClass [(CHR ''0'', CHR ''9'')])))
           (OpConcat (OpLiteral CHR ''.'')
             (OpConcat (OpCapture 2 (OpPlus (OpCharClass [(CHR ''0'', CHR ''9'')])))
               (OpConcat (OpLiteral CHR ''.'')
                 (OpCapture 3 (OpPlus (OpCharClass [(CHR ''0'', CHR ''9'')])))))), 3)"
  by (simp add: semver_pattern_def parse_def pstep_def pfinish_def close_frame_def push_def
      code_def is_alnum_def repeat_def)

text \<open>
  C9. \<open>FindStringSubmatch\<close> on \<^verbatim>\<open>DeferredRegex{Re: `([0-9]+)\.([0-9]+)\.([0-9]+)`}\<close> with the
  input \<open>1.2.3\<close> returns the sequence \<open>1.2.3\<close>, \<open>1\<close>, \<open>2\<close>, \<open>3\<close>.
\<close>

theorem find_string_submatch_semver:
  "fst (FindStringSubmatch regexp_MustCompile regexp_FindStringSubmatch
          (DeferredRegex_lit semver_pattern) ''1.2.3'')
   = Inr (Some [''1.2.3'', ''1'', ''2'', ''3''])"
  by (simp add: FindStringSubmatch_def init_then_def init_def DeferredRegex_lit_def
      regexp_MustCompile_def parse_semver_pattern regexp_FindStringSubmatch_def
      pick_def in_class_def code_def substr_def eval_nat_numeral)

end
